theory Spec2Isabelle
  imports Complex_Main
begin

section \<open>Tensors\<close>

text \<open>
  The program is \<^verbatim>\<open>models.py\<close>: a cell of leaky integrate-and-fire neurons written
  against TensorFlow 1.x, two sequence filters and a checker that compares two lists of
  gradients. Its arithmetic is modelled over the reals, as the specification's numeric
  semantics has it, and without the rounding of the floats; the one place where a claim
  turns on a float, the tolerance test of the checker, is modelled a second time at the
  precision of its arrays.

  A rank-2 tensor (batch x neuron, or a weight matrix) is the list of its rows. The
  operators below are the elementwise operators of TensorFlow and numpy at the ranks the
  program uses them: between two tensors of one shape, and between a tensor and a scalar
  that is broadcast. Operands of two different shapes are broadcast or rejected by the
  library; the program does not rely on either, and the theorems assume shapes that agree.
\<close>

type_synonym matrix = "real list list"

definition t_add_t :: "matrix \<Rightarrow> matrix \<Rightarrow> matrix" where
  "t_add_t x y = map2 (map2 (+)) x y"

definition t_sub_t :: "matrix \<Rightarrow> matrix \<Rightarrow> matrix" where
  "t_sub_t x y = map2 (map2 (-)) x y"

definition t_mul_t :: "matrix \<Rightarrow> matrix \<Rightarrow> matrix" where
  "t_mul_t x y = map2 (map2 (*)) x y"

definition t_div_t :: "matrix \<Rightarrow> matrix \<Rightarrow> matrix" where
  "t_div_t x y = map2 (map2 (/)) x y"

definition t_mul_s :: "matrix \<Rightarrow> real \<Rightarrow> matrix" where
  "t_mul_s x s = map (map (\<lambda>a. a * s)) x"

definition s_mul_t :: "real \<Rightarrow> matrix \<Rightarrow> matrix" where
  "s_mul_t s x = map (map (\<lambda>a. s * a)) x"

definition t_sub_s :: "matrix \<Rightarrow> real \<Rightarrow> matrix" where
  "t_sub_s x s = map (map (\<lambda>a. a - s)) x"

definition s_sub_t :: "real \<Rightarrow> matrix \<Rightarrow> matrix" where
  "s_sub_t s x = map (map (\<lambda>a. s - a)) x"

definition s_add_t :: "real \<Rightarrow> matrix \<Rightarrow> matrix" where
  "s_add_t s x = map (map (\<lambda>a. s + a)) x"

definition t_div_s :: "matrix \<Rightarrow> real \<Rightarrow> matrix" where
  "t_div_s x s = map (map (\<lambda>a. a / s)) x"

definition tf_abs :: "matrix \<Rightarrow> matrix" where
  "tf_abs x = map (map abs) x"

definition tf_maximum :: "matrix \<Rightarrow> real \<Rightarrow> matrix" where
  "tf_maximum x s = map (map (\<lambda>a. max a s)) x"

definition tf_greater :: "matrix \<Rightarrow> real \<Rightarrow> bool list list" where
  "tf_greater x s = map (map (\<lambda>a. a > s)) x"

definition tf_cast :: "bool list list \<Rightarrow> matrix" where
  "tf_cast b = map (map (\<lambda>p. if p then 1 else 0)) b"

definition tf_identity :: "'a \<Rightarrow> 'a" where
  "tf_identity x = x"

definition tf_zeros_like :: "matrix \<Rightarrow> matrix" where
  "tf_zeros_like x = map (map (\<lambda>a. 0)) x"

definition tf_zeros :: "nat \<times> nat \<Rightarrow> matrix" where
  "tf_zeros shp = replicate (fst shp) (replicate (snd shp) 0)"

text \<open>
  \<^verbatim>\<open>tf.where(c, x, y)\<close> on three tensors of one shape: the entry of \<open>x\<close> where the
  condition holds, the entry of \<open>y\<close> elsewhere.
\<close>

definition tf_where :: "bool list list \<Rightarrow> matrix \<Rightarrow> matrix \<Rightarrow> matrix" where
  "tf_where c x y =
     map2 (\<lambda>crow (xrow, yrow). map2 (\<lambda>p (a, b). if p then a else b) crow (zip xrow yrow))
       c (zip x y)"

text \<open>
  \<^verbatim>\<open>tf.matmul(a, b)\<close>: the number of columns of the product is that of \<open>b\<close>, read
  from its first row (a matrix with no row carries no column count in this
  representation; the configurations of the specification have positive widths).
\<close>

definition ncols :: "'a list list \<Rightarrow> nat" where
  "ncols b = (case b of [] \<Rightarrow> 0 | r # _ \<Rightarrow> length r)"

definition tf_matmul :: "matrix \<Rightarrow> matrix \<Rightarrow> matrix" where
  "tf_matmul a b =
     map (\<lambda>arow. map (\<lambda>j. sum_list (map2 (\<lambda>x brow. x * brow ! j) arow b)) [0..<ncols b]) a"

text \<open>The gradient is stopped on the backward pass only: the forward value is the argument.\<close>

definition tf_stop_gradient :: "matrix \<Rightarrow> matrix" where
  "tf_stop_gradient x = x"

section \<open>The spike function and its pseudo derivative\<close>

text \<open>
  \<^verbatim>\<open>
  def pseudo_derivative(v_scaled, dampening_factor):
      return tf.maximum(1 - tf.abs(v_scaled), 0) * dampening_factor
  \<close>
\<close>

definition pseudo_derivative :: "matrix \<Rightarrow> real \<Rightarrow> matrix" where
  "pseudo_derivative v_scaled dampening = t_mul_s (tf_maximum (s_sub_t 1 (tf_abs v_scaled)) 0) dampening"

text \<open>
  \<^verbatim>\<open>
  @tf.custom_gradient
  def SpikeFunction(v_scaled, dampening_factor):
      z_ = tf.greater(v_scaled, 0.)
      z_ = tf.cast(z_, dtype=tf.float32)

      def grad(dy):
          dE_dz = dy
          dz_dv_scaled = pseudo_derivative(v_scaled, dampening_factor)
          dE_dv_scaled = dE_dz * dz_dv_scaled
          return [dE_dv_scaled, tf.zeros_like(dampening_factor)]

      return tf.identity(z_, name="SpikeFunction"), grad
  \<close>
  A function under \<^verbatim>\<open>tf.custom_gradient\<close> returns its forward value together with the
  function that the backward pass calls: the model returns the same pair. The dampening
  factor is a scalar, so the zero tensor of its shape is the number zero.
\<close>

definition SpikeFunction_grad :: "matrix \<Rightarrow> real \<Rightarrow> matrix \<Rightarrow> matrix \<times> real" where
  "SpikeFunction_grad v_scaled dampening dy =
     (let dE_dz = dy;
          dz_dv_scaled = pseudo_derivative v_scaled dampening;
          dE_dv_scaled = t_mul_t dE_dz dz_dv_scaled
      in (dE_dv_scaled, 0))"

definition SpikeFunction :: "matrix \<Rightarrow> real \<Rightarrow> matrix \<times> (matrix \<Rightarrow> matrix \<times> real)" where
  "SpikeFunction v_scaled dampening =
     (let z' = tf_greater v_scaled 0;
          z' = tf_cast z'
      in (tf_identity z', SpikeFunction_grad v_scaled dampening))"

section \<open>The gradient checker\<close>

text \<open>
  \<^verbatim>\<open>
  def check_gradients(var_list, eprop_grads_np, true_grads_np):
      for k_v, v in enumerate(var_list):
          eprop_grad = eprop_grads_np[k_v]
          true_grad = true_grads_np[k_v]

          diff = eprop_grad - true_grad
          is_correct = np.abs(diff) < 1e-4

          if np.all(is_correct):
              print('\t' + v.name + ' is correct.')
          else:
              print('\t' + v.name + ' is wrong')
              ratio = np.abs(eprop_grad) / (1e-8 + np.abs(true_grad))
              print('E-prop')
              print(np.array_str(eprop_grad[:5, :5], precision=4))
              print('True gradients')
              print(np.array_str(true_grad[:5, :5], precision=4))
              print('Difference')
              print(np.array_str(diff[:5, :5], precision=4))
              print('Ratio')
              print(np.array_str(ratio[:5, :5], precision=4))

              mismatch_indices = np.where(1 - is_correct)
              mismatch_indices = list(zip(*mismatch_indices))
              print('mismatch indices', mismatch_indices[:5])
              print('diff. vals', [diff[i, j] for i, j in mismatch_indices[:5]])

              raise ValueError()
  \<close>
  The checker has two effects: what it prints, and how it ends. The model returns both:
  the list of the things printed, in order, and either \<open>Inr ()\<close> (the loop ran to its
  end and the function returned) or \<open>Inl\<close> of the exception raised. A printed array is
  kept as the array (its rendering with four digits is not modelled). The gradients are
  rank-2 arrays, as the two-index slices and \<^verbatim>\<open>diff[i, j]\<close> require. The arithmetic
  here is exact; the section after this one has the same function with the rounding of
  the arrays' float type.
\<close>

datatype py_error = ValueError | IndexError | AssertionError

datatype tf_variable = Variable (name: string)

datatype printed =
    Str string
  | Arr matrix
  | Idx string "(nat \<times> nat) list"
  | Vals string "real list"

definition np_abs :: "matrix \<Rightarrow> matrix" where
  "np_abs x = map (map abs) x"

definition np_less :: "matrix \<Rightarrow> real \<Rightarrow> bool list list" where
  "np_less x s = map (map (\<lambda>a. a < s)) x"

definition np_all :: "bool list list \<Rightarrow> bool" where
  "np_all b = list_all (list_all (\<lambda>p. p)) b"

text \<open>\<^verbatim>\<open>1 - is_correct\<close>: the boolean array read as 0 and 1, subtracted from 1.\<close>

definition one_minus :: "bool list list \<Rightarrow> int list list" where
  "one_minus b = map (map (\<lambda>p. 1 - (if p then 1 else 0))) b"

text \<open>
  \<^verbatim>\<open>np.where(a)\<close> with one argument: the row indices and the column indices of the
  non-zero entries, in row-major order.
\<close>

definition np_where :: "int list list \<Rightarrow> nat list \<times> nat list" where
  "np_where a =
     (let nz = concat (map (\<lambda>i. map (\<lambda>j. (i, j)) (filter (\<lambda>j. a ! i ! j \<noteq> 0) [0..<length (a ! i)]))
                 [0..<length a])
      in (map fst nz, map snd nz))"

text \<open>\<^verbatim>\<open>a[:5, :5]\<close>\<close>

definition slice5 :: "matrix \<Rightarrow> matrix" where
  "slice5 a = map (take 5) (take 5 a)"

definition print_wrong ::
  "tf_variable \<Rightarrow> matrix \<Rightarrow> matrix \<Rightarrow> matrix \<Rightarrow> bool list list \<Rightarrow> printed list" where
  "print_wrong v eprop_grad true_grad diff is_correct =
     (let ratio = t_div_t (np_abs eprop_grad) (s_add_t (1 / 100000000) (np_abs true_grad));
          mismatch_indices = np_where (one_minus is_correct);
          mismatch_indices = zip (fst mismatch_indices) (snd mismatch_indices)
      in [Str (CHR 0x09 # name v @ '' is wrong''),
          Str ''E-prop'',
          Arr (slice5 eprop_grad),
          Str ''True gradients'',
          Arr (slice5 true_grad),
          Str ''Difference'',
          Arr (slice5 diff),
          Str ''Ratio'',
          Arr (slice5 ratio),
          Idx ''mismatch indices'' (take 5 mismatch_indices),
          Vals ''diff. vals'' (map (\<lambda>(i, j). diff ! i ! j) (take 5 mismatch_indices))])"

fun check_gradients_loop ::
  "(nat \<times> tf_variable) list \<Rightarrow> matrix list \<Rightarrow> matrix list \<Rightarrow> printed list \<times> (py_error + unit)" where
  "check_gradients_loop [] eprop_grads_np true_grads_np = ([], Inr ())"
| "check_gradients_loop ((k_v, v) # rest) eprop_grads_np true_grads_np =
     (if length eprop_grads_np \<le> k_v \<or> length true_grads_np \<le> k_v then ([], Inl IndexError)
      else
        let eprop_grad = eprop_grads_np ! k_v;
            true_grad = true_grads_np ! k_v;
            diff = t_sub_t eprop_grad true_grad;
            is_correct = np_less (np_abs diff) (1 / 10000)
        in if np_all is_correct
           then (case check_gradients_loop rest eprop_grads_np true_grads_np of
                   (out, r) \<Rightarrow> (Str (CHR 0x09 # name v @ '' is correct.'') # out, r))
           else (print_wrong v eprop_grad true_grad diff is_correct, Inl ValueError))"

definition check_gradients ::
  "tf_variable list \<Rightarrow> matrix list \<Rightarrow> matrix list \<Rightarrow> printed list \<times> (py_error + unit)" where
  "check_gradients var_list eprop_grads_np true_grads_np =
     check_gradients_loop (enumerate 0 var_list) eprop_grads_np true_grads_np"

section \<open>The gradient checker at the precision of its arrays\<close>

text \<open>
  The gradients the checker receives are numpy arrays of floats of one data type
  (\<^verbatim>\<open>float32\<close> for the gradients of the cell, whose default type it is), and numpy
  computes in that type: the entries of \<^verbatim>\<open>eprop_grad - true_grad\<close> are the differences
  rounded to the type, and in \<^verbatim>\<open>np.abs(diff) < 1e-4\<close> the literal is converted to the type
  before the two floats are compared (the literal is a double first; for \<^verbatim>\<open>float32\<close> that
  does not change the float it ends as). Where a claim turns on the boundary of the
  tolerance, this is the model:
  the same function, with the rounding \<open>fl\<close> of the data type as a parameter, applied to
  the result of every arithmetic operation and to the two literals. Taking the absolute
  value and comparing are exact on floats. Results too large for the type (infinities)
  and \<^verbatim>\<open>NaN\<close> are outside the model.
\<close>

definition fl_sub :: "(real \<Rightarrow> real) \<Rightarrow> matrix \<Rightarrow> matrix \<Rightarrow> matrix" where
  "fl_sub fl x y = map2 (map2 (\<lambda>a b. fl (a - b))) x y"

definition fl_div :: "(real \<Rightarrow> real) \<Rightarrow> matrix \<Rightarrow> matrix \<Rightarrow> matrix" where
  "fl_div fl x y = map2 (map2 (\<lambda>a b. fl (a / b))) x y"

definition fl_s_add :: "(real \<Rightarrow> real) \<Rightarrow> real \<Rightarrow> matrix \<Rightarrow> matrix" where
  "fl_s_add fl s x = map (map (\<lambda>a. fl (s + a))) x"

definition print_wrong_fl ::
  "(real \<Rightarrow> real) \<Rightarrow> tf_variable \<Rightarrow> matrix \<Rightarrow> matrix \<Rightarrow> matrix \<Rightarrow> bool list list \<Rightarrow> printed list" where
  "print_wrong_fl fl v eprop_grad true_grad diff is_correct =
     (let ratio = fl_div fl (np_abs eprop_grad) (fl_s_add fl (fl (1 / 100000000)) (np_abs true_grad));
          mismatch_indices = np_where (one_minus is_correct);
          mismatch_indices = zip (fst mismatch_indices) (snd mismatch_indices)
      in [Str (CHR 0x09 # name v @ '' is wrong''),
          Str ''E-prop'',
          Arr (slice5 eprop_grad),
          Str ''True gradients'',
          Arr (slice5 true_grad),
          Str ''Difference'',
          Arr (slice5 diff),
          Str ''Ratio'',
          Arr (slice5 ratio),
          Idx ''mismatch indices'' (take 5 mismatch_indices),
          Vals ''diff. vals'' (map (\<lambda>(i, j). diff ! i ! j) (take 5 mismatch_indices))])"

fun check_gradients_loop_fl ::
  "(real \<Rightarrow> real) \<Rightarrow> (nat \<times> tf_variable) list \<Rightarrow> matrix list \<Rightarrow> matrix list
     \<Rightarrow> printed list \<times> (py_error + unit)" where
  "check_gradients_loop_fl fl [] eprop_grads_np true_grads_np = ([], Inr ())"
| "check_gradients_loop_fl fl ((k_v, v) # rest) eprop_grads_np true_grads_np =
     (if length eprop_grads_np \<le> k_v \<or> length true_grads_np \<le> k_v then ([], Inl IndexError)
      else
        let eprop_grad = eprop_grads_np ! k_v;
            true_grad = true_grads_np ! k_v;
            diff = fl_sub fl eprop_grad true_grad;
            is_correct = np_less (np_abs diff) (fl (1 / 10000))
        in if np_all is_correct
           then (case check_gradients_loop_fl fl rest eprop_grads_np true_grads_np of
                   (out, r) \<Rightarrow> (Str (CHR 0x09 # name v @ '' is correct.'') # out, r))
           else (print_wrong_fl fl v eprop_grad true_grad diff is_correct, Inl ValueError))"

definition check_gradients_fl ::
  "(real \<Rightarrow> real) \<Rightarrow> tf_variable list \<Rightarrow> matrix list \<Rightarrow> matrix list
     \<Rightarrow> printed list \<times> (py_error + unit)" where
  "check_gradients_fl fl var_list eprop_grads_np true_grads_np =
     check_gradients_loop_fl fl (enumerate 0 var_list) eprop_grads_np true_grads_np"




section \<open>The cell of leaky integrate-and-fire neurons\<close>

text \<open>
  \<^verbatim>\<open>LightLIFStateTuple = namedtuple('LightLIFStateTuple', ('v', 'z'))\<close>
\<close>

record LightLIFStateTuple =
  v :: matrix
  z :: matrix

text \<open>
  \<^verbatim>\<open>
  class LightLIF(Cell):
      def __init__(self, n_in, n_rec, tau=20., thr=0.615, dt=1., dtype=tf.float32,
                   dampening_factor=0.3, stop_z_gradients=False):
          self.dampening_factor = dampening_factor
          self.dt = dt
          self.n_in = n_in
          self.n_rec = n_rec
          self.data_type = dtype
          self.stop_z_gradients = stop_z_gradients
          self._num_units = self.n_rec
          self.tau = tf.constant(tau, dtype=dtype)
          self._decay = tf.exp(-dt / self.tau)
          self.thr = thr
          with tf.variable_scope('InputWeights'):
              self.w_in_var = tf.Variable(np.random.randn(n_in, n_rec) / np.sqrt(n_in), dtype=dtype)
              self.w_in_val = tf.identity(self.w_in_var)
          with tf.variable_scope('RecWeights'):
              self.w_rec_var = tf.Variable(np.random.randn(n_rec, n_rec) / np.sqrt(n_rec), dtype=dtype)
              self.recurrent_disconnect_mask = np.diag(np.ones(n_rec, dtype=bool))
              self.w_rec_val = tf.where(self.recurrent_disconnect_mask, tf.zeros_like(self.w_rec_var),
                                        self.w_rec_var)  # Disconnect autotapse
  \<close>
  The object is a record of its attributes. The two variables hold the values stored in
  them: the random draws at construction (parameters of the constructor here), and
  whatever an optimizer assigns later (a record update). The attributes \<^verbatim>\<open>w_in_val\<close> and
  \<^verbatim>\<open>w_rec_val\<close> are nodes of the TensorFlow 1.x graph: they are evaluated at every run,
  from the value the variable holds then, so they are functions of the record. The data
  type is left out: the values are reals.
\<close>

record LightLIF =
  dampening_factor :: real
  dt :: real
  n_in :: nat
  n_rec :: nat
  stop_z_gradients :: bool
  num_units :: nat
  tau :: real
  decay :: real
  thr :: real
  w_in_var :: matrix
  w_rec_var :: matrix
  recurrent_disconnect_mask :: "bool list list"

definition np_ones :: "nat \<Rightarrow> bool list" where
  "np_ones n = replicate n True"

text \<open>\<^verbatim>\<open>np.diag\<close> of a vector: the square matrix with the vector on its diagonal.\<close>

definition np_diag :: "bool list \<Rightarrow> bool list list" where
  "np_diag d = map (\<lambda>i. map (\<lambda>j. if i = j then d ! i else False) [0..<length d]) [0..<length d]"

definition LightLIF_init ::
  "nat \<Rightarrow> nat \<Rightarrow> real \<Rightarrow> real \<Rightarrow> real \<Rightarrow> real \<Rightarrow> bool \<Rightarrow> matrix \<Rightarrow> matrix \<Rightarrow> LightLIF" where
  "LightLIF_init n_in0 n_rec0 tau0 thr0 dt0 dampening0 stop0 w_in0 w_rec0 =
     \<lparr>dampening_factor = dampening0,
      dt = dt0,
      n_in = n_in0,
      n_rec = n_rec0,
      stop_z_gradients = stop0,
      num_units = n_rec0,
      tau = tau0,
      decay = exp (- dt0 / tau0),
      thr = thr0,
      w_in_var = w_in0,
      w_rec_var = w_rec0,
      recurrent_disconnect_mask = np_diag (np_ones n_rec0)\<rparr>"

definition w_in_val :: "LightLIF \<Rightarrow> matrix" where
  "w_in_val self = tf_identity (w_in_var self)"

definition w_rec_val :: "LightLIF \<Rightarrow> matrix" where
  "w_rec_val self =
     tf_where (recurrent_disconnect_mask self) (tf_zeros_like (w_rec_var self)) (w_rec_var self)"

text \<open>
  \<^verbatim>\<open>
  def zero_state(self, batch_size, dtype, n_rec=None):
      if n_rec is None: n_rec = self.n_rec
      v0 = tf.zeros(shape=(batch_size, n_rec), dtype=dtype)
      z0 = tf.zeros(shape=(batch_size, n_rec), dtype=dtype)
      return LightLIFStateTuple(v=v0, z=z0)
  \<close>
\<close>

definition zero_state :: "LightLIF \<Rightarrow> nat \<Rightarrow> nat option \<Rightarrow> LightLIFStateTuple" where
  "zero_state self batch_size n_rec_arg =
     (let n = (case n_rec_arg of None \<Rightarrow> n_rec self | Some m \<Rightarrow> m);
          v0 = tf_zeros (batch_size, n);
          z0 = tf_zeros (batch_size, n)
      in \<lparr>v = v0, z = z0\<rparr>)"

text \<open>
  \<^verbatim>\<open>
  def __call__(self, inputs, state, scope=None, dtype=tf.float32):
      thr = self.thr
      z = state.z
      v = state.v
      decay = self._decay

      if self.stop_z_gradients:
          z = tf.stop_gradient(z)

      # update the voltage
      i_t = tf.matmul(inputs, self.w_in_val) + tf.matmul(z, self.w_rec_val)
      I_reset = z * self.thr * self.dt
      new_v = decay * v + (1 - decay) * i_t - I_reset

      # Spike generation
      v_scaled = (new_v - thr) / thr
      new_z = SpikeFunction(v_scaled, self.dampening_factor)
      new_z = new_z * 1 / self.dt
      new_state = LightLIFStateTuple(v=new_v, z=new_z)
      return [new_z, new_v], new_state
  \<close>
  The forward value of \<^verbatim>\<open>SpikeFunction\<close> is the first component of what the decorated
  function returns.
\<close>

definition LightLIF_call ::
  "LightLIF \<Rightarrow> matrix \<Rightarrow> LightLIFStateTuple \<Rightarrow> matrix list \<times> LightLIFStateTuple" where
  "LightLIF_call self inputs state =
     (let thr0 = thr self;
          z0 = z state;
          v0 = v state;
          decay0 = decay self;
          z0 = (if stop_z_gradients self then tf_stop_gradient z0 else z0);
          i_t = t_add_t (tf_matmul inputs (w_in_val self)) (tf_matmul z0 (w_rec_val self));
          I_reset = t_mul_s (t_mul_s z0 (thr self)) (dt self);
          new_v = t_sub_t (t_add_t (s_mul_t decay0 v0) (s_mul_t (1 - decay0) i_t)) I_reset;
          v_scaled = t_div_s (t_sub_s new_v thr0) thr0;
          new_z = fst (SpikeFunction v_scaled (dampening_factor self));
          new_z = t_div_s (t_mul_s new_z 1) (dt self);
          new_state = \<lparr>v = new_v, z = new_z\<rparr>
      in ([new_z, new_v], new_state))"

section \<open>The sequence filters\<close>

text \<open>
  The two filters take a tensor of shape (trial, time, neuron). A rank-3 tensor is a
  record of its data type, its shape and its entries, nested in the order of the axes:
  the shape is kept beside the entries so that an axis of length zero does not lose the
  lengths of the axes under it.
\<close>

datatype tf_dtype = Float16 | Float32 | Float64 | Int32 | Int64 | Bool

record tensor3 =
  dtype :: tf_dtype
  shape :: "nat \<times> nat \<times> nat"
  vals :: "real list list list"

text \<open>
  \<^verbatim>\<open>
  r_shp = range(len(tensor.get_shape()))
  transpose_perm = [1, 0] + list(r_shp)[2:]
  tensor_time_major = tf.transpose(tensor, perm=transpose_perm)
  \<close>
  For a rank-3 tensor the permutation is \<^verbatim>\<open>[1, 0, 2]\<close>: the first two axes are swapped,
  the rows along the last axis are kept.
\<close>

definition tf_transpose :: "tensor3 \<Rightarrow> tensor3" where
  "tf_transpose t =
     (case shape t of
        (d0, d1, d2) \<Rightarrow>
          t\<lparr>shape := (d1, d0, d2),
            vals := map (\<lambda>j. map (\<lambda>i. vals t ! i ! j) [0..<d0]) [0..<d1]\<rparr>)"

text \<open>
  \<^verbatim>\<open>tf.scan(fn, elems, initializer)\<close>: the accumulator starts at the initializer; the
  output at each index is the accumulator after that element.
\<close>

fun tf_scan :: "('a \<Rightarrow> 'b \<Rightarrow> 'a) \<Rightarrow> 'b list \<Rightarrow> 'a \<Rightarrow> 'a list" where
  "tf_scan fn [] a = []"
| "tf_scan fn (x # xs) a = (let a' = fn a x in a' # tf_scan fn xs a')"

text \<open>
  \<^verbatim>\<open>
  def exp_convolve(tensor, decay):
      with tf.name_scope('ExpConvolve'):
          assert tensor.dtype in [tf.float16, tf.float32, tf.float64]
          r_shp = range(len(tensor.get_shape()))
          transpose_perm = [1, 0] + list(r_shp)[2:]

          tensor_time_major = tf.transpose(tensor, perm=transpose_perm)
          initializer = tf.zeros_like(tensor_time_major[0])
          filtered_tensor = tf.scan(lambda a, x: a * decay + (1 - decay) * x, tensor_time_major,
                                    initializer=initializer)
          filtered_tensor = tf.transpose(filtered_tensor, perm=transpose_perm)
      return filtered_tensor
  \<close>
  The failed assertion is an error value. So is \<^verbatim>\<open>tensor_time_major[0]\<close> on a tensor with
  no time step: the slice is out of bounds, which TensorFlow reports as a
  \<^verbatim>\<open>ValueError\<close> when it builds the graph.
\<close>

definition exp_convolve :: "tensor3 \<Rightarrow> real \<Rightarrow> py_error + tensor3" where
  "exp_convolve tensor decay0 =
     (if dtype tensor \<notin> set [Float16, Float32, Float64] then Inl AssertionError
      else
        let tensor_time_major = tf_transpose tensor
        in (case vals tensor_time_major of
              [] \<Rightarrow> Inl ValueError
            | first # _ \<Rightarrow>
                let initializer = tf_zeros_like first;
                    filtered_tensor =
                      tf_scan (\<lambda>a x. t_add_t (t_mul_s a decay0) (s_mul_t (1 - decay0) x))
                        (vals tensor_time_major) initializer;
                    filtered_tensor = tf_transpose (tensor_time_major\<lparr>vals := filtered_tensor\<rparr>)
                in Inr filtered_tensor))"

text \<open>
  \<^verbatim>\<open>
  def shift_by_one_time_step(tensor, initializer=None):
      with tf.name_scope('TimeShift'):
          assert tensor.dtype in [tf.float16, tf.float32, tf.float64]
          r_shp = range(len(tensor.get_shape()))
          transpose_perm = [1, 0] + list(r_shp)[2:]
          tensor_time_major = tf.transpose(tensor, perm=transpose_perm)

          if initializer is None:
              initializer = tf.zeros_like(tensor_time_major[0])

          shifted_tensor = tf.concat([initializer[None, :, :], tensor_time_major[:-1]], axis=0)

          shifted_tensor = tf.transpose(shifted_tensor, perm=transpose_perm)
      return shifted_tensor
  \<close>
  \<^verbatim>\<open>initializer[None, :, :]\<close> is the sequence of the one slice, \<^verbatim>\<open>tensor_time_major[:-1]\<close>
  the sequence without its last slice (empty when it has none), and the concatenation
  along the time axis has as many slices as the two together.
\<close>

definition shift_by_one_time_step :: "tensor3 \<Rightarrow> matrix option \<Rightarrow> py_error + tensor3" where
  "shift_by_one_time_step tensor initializer =
     (if dtype tensor \<notin> set [Float16, Float32, Float64] then Inl AssertionError
      else
        let tensor_time_major = tf_transpose tensor
        in (case (case initializer of
                    None \<Rightarrow> (case vals tensor_time_major of
                               [] \<Rightarrow> Inl ValueError
                             | first # _ \<Rightarrow> Inr (tf_zeros_like first))
                  | Some i \<Rightarrow> Inr i) of
              Inl err \<Rightarrow> Inl err
            | Inr initializer \<Rightarrow>
                let shifted_vals = [initializer] @ butlast (vals tensor_time_major);
                    shifted_tensor =
                      tensor_time_major
                        \<lparr>shape := (length shifted_vals, snd (shape tensor_time_major)),
                         vals := shifted_vals\<rparr>;
                    shifted_tensor = tf_transpose shifted_tensor
                in Inr shifted_tensor))"

section \<open>Shapes, and the statements the claims are made of\<close>

text \<open>Two tensors have one shape when they have as many rows, of the same lengths.\<close>

definition same_shape :: "'a list list \<Rightarrow> 'b list list \<Rightarrow> bool" where
  "same_shape x y = (map length x = map length y)"

text \<open>The two lines the checker prints for a parameter, and the test it makes on it.\<close>

abbreviation correct_line :: "tf_variable \<Rightarrow> printed" where
  "correct_line p \<equiv> Str (CHR 0x09 # name p @ '' is correct.'')"

abbreviation wrong_line :: "tf_variable \<Rightarrow> printed" where
  "wrong_line p \<equiv> Str (CHR 0x09 # name p @ '' is wrong'')"

definition is_correct_of :: "matrix \<Rightarrow> matrix \<Rightarrow> bool list list" where
  "is_correct_of e t = np_less (np_abs (t_sub_t e t)) (1 / 10000)"


text \<open>
  The tolerance as the specification words it: every entry of the two gradients differs
  by less than \<open>1e-4\<close> in absolute value.
\<close>

definition within_tolerance :: "matrix \<Rightarrow> matrix \<Rightarrow> bool" where
  "within_tolerance e t = (\<forall>i<length e. \<forall>j<length (e ! i). \<bar>e ! i ! j - t ! i ! j\<bar> < 1 / 10000)"


text \<open>
  A matrix of \<open>r\<close> rows and \<open>c\<close> columns, and the matrix whose entry \<open>(i, j)\<close> is \<open>f i j\<close>.
\<close>

definition mat_shape :: "'a list list \<Rightarrow> nat \<Rightarrow> nat \<Rightarrow> bool" where
  "mat_shape m r c = (length m = r \<and> (\<forall>row\<in>set m. length row = c))"

definition tab :: "nat \<Rightarrow> nat \<Rightarrow> (nat \<Rightarrow> nat \<Rightarrow> 'a) \<Rightarrow> 'a list list" where
  "tab r c f = map (\<lambda>i. map (\<lambda>j. f i j) [0..<c]) [0..<r]"

text \<open>
  The step as the specification words it, entry by entry (batch element \<open>b\<close>, neuron
  \<open>j\<close>): the total drive with the recurrent weights read with a zero diagonal, the
  voltage update with \<open>decay = exp (- dt / tau)\<close>, and the spike as the step function of
  the scaled voltage divided by \<open>dt\<close>. The triple returned is the specification's
  \<open>(z_next, v_next, NeuronState(v_next, z_next))\<close>.
\<close>

definition spec_i_t :: "LightLIF \<Rightarrow> matrix \<Rightarrow> LightLIFStateTuple \<Rightarrow> nat \<Rightarrow> nat \<Rightarrow> real" where
  "spec_i_t c input_t st b j =
     (\<Sum>k<n_in c. input_t ! b ! k * w_in_var c ! k ! j)
     + (\<Sum>k<n_rec c. z st ! b ! k * (if k = j then 0 else w_rec_var c ! k ! j))"

definition spec_v_next :: "LightLIF \<Rightarrow> matrix \<Rightarrow> LightLIFStateTuple \<Rightarrow> nat \<Rightarrow> nat \<Rightarrow> real" where
  "spec_v_next c input_t st b j =
     exp (- dt c / tau c) * v st ! b ! j + (1 - exp (- dt c / tau c)) * spec_i_t c input_t st b j
     - z st ! b ! j * thr c * dt c"

definition spec_z_next :: "LightLIF \<Rightarrow> matrix \<Rightarrow> LightLIFStateTuple \<Rightarrow> nat \<Rightarrow> nat \<Rightarrow> real" where
  "spec_z_next c input_t st b j =
     (if (spec_v_next c input_t st b j - thr c) / thr c > 0 then 1 else 0) / dt c"

definition spec_step ::
  "LightLIF \<Rightarrow> matrix \<Rightarrow> LightLIFStateTuple \<Rightarrow> matrix \<times> matrix \<times> LightLIFStateTuple" where
  "spec_step c input_t st =
     (let v_next = tab (length input_t) (n_rec c) (spec_v_next c input_t st);
          z_next = tab (length input_t) (n_rec c) (spec_z_next c input_t st)
      in (z_next, v_next, \<lparr>v = v_next, z = z_next\<rparr>))"

text \<open>
  What the constructor establishes and an assignment of well-shaped weights keeps: the
  widths are positive where the product needs them, the weights have the shapes of the
  configuration, the mask is the diagonal, and the decay is \<open>exp (- dt / tau)\<close>.
\<close>

definition cell_ok :: "LightLIF \<Rightarrow> bool" where
  "cell_ok c =
     (0 < n_in c
      \<and> mat_shape (w_in_var c) (n_in c) (n_rec c)
      \<and> mat_shape (w_rec_var c) (n_rec c) (n_rec c)
      \<and> recurrent_disconnect_mask c = np_diag (np_ones (n_rec c))
      \<and> decay c = exp (- dt c / tau c))"

text \<open>
  The run of a sequence. The loop over the time steps belongs to the driver, which is
  not part of \<^verbatim>\<open>models.py\<close>; the specification describes it: the cell is called once
  per time step, on the input of that step and the state the step before returned, and
  gives the outputs of the step and the next state.
\<close>

fun run_cell ::
  "LightLIF \<Rightarrow> matrix list \<Rightarrow> LightLIFStateTuple \<Rightarrow> matrix list list \<times> LightLIFStateTuple" where
  "run_cell c [] st = ([], st)"
| "run_cell c (x # xs) st =
     (case LightLIF_call c x st of
        (out, st') \<Rightarrow> (case run_cell c xs st' of (outs, st'') \<Rightarrow> (out # outs, st'')))"

text \<open>
  A rank-3 tensor is well formed when its entries have the lengths its shape gives, and
  it is a tensor of floats when its data type is one of the three the filters accept.
\<close>

definition wf_tensor3 :: "tensor3 \<Rightarrow> bool" where
  "wf_tensor3 t =
     (case shape t of
        (d0, d1, d2) \<Rightarrow> length (vals t) = d0 \<and> (\<forall>m\<in>set (vals t). mat_shape m d1 d2))"

definition float_dtype :: "tensor3 \<Rightarrow> bool" where
  "float_dtype t = (dtype t \<in> {Float16, Float32, Float64})"

text \<open>The function the exponential filter scans with.\<close>

definition filter_fn :: "real \<Rightarrow> matrix \<Rightarrow> matrix \<Rightarrow> matrix" where
  "filter_fn d a x = t_add_t (t_mul_s a d) (s_mul_t (1 - d) x)"

text \<open>The initializer the shift uses: the one given, or the zero slice.\<close>

definition shift_initializer :: "matrix option \<Rightarrow> nat \<Rightarrow> nat \<Rightarrow> matrix" where
  "shift_initializer init B N = (case init of None \<Rightarrow> tf_zeros (B, N) | Some i \<Rightarrow> i)"

text \<open>An initializer, when given, has the shape of one time slice.\<close>

definition initializer_ok :: "matrix option \<Rightarrow> nat \<Rightarrow> nat \<Rightarrow> bool" where
  "initializer_ok init B N = (case init of None \<Rightarrow> True | Some i \<Rightarrow> mat_shape i B N)"

section \<open>Shapes and entries of the elementwise operators\<close>

lemma same_shape_length: "same_shape x y \<Longrightarrow> length x = length y"
  unfolding same_shape_def by (metis length_map)

lemma same_shape_row: "same_shape x y \<Longrightarrow> i < length x \<Longrightarrow> length (x ! i) = length (y ! i)"
  unfolding same_shape_def by (metis length_map nth_map)

lemma same_shape_refl: "same_shape x x"
  by (simp add: same_shape_def)

lemma SpikeFunction_fwd: "fst (SpikeFunction x d) = map (map (\<lambda>a. if 0 < a then 1 else 0)) x"
  by (simp add: SpikeFunction_def tf_cast_def tf_greater_def tf_identity_def comp_def)

lemma pseudo_derivative_entries:
  "pseudo_derivative x d = map (map (\<lambda>a. max (1 - \<bar>a\<bar>) 0 * d)) x"
  by (simp add: pseudo_derivative_def t_mul_s_def tf_maximum_def s_sub_t_def tf_abs_def comp_def)

section \<open>Claims on the spike function\<close>

text \<open>
  C4. The forward value of the spike function has the shape of its argument; its entry
  is 1 where the entry of the scaled voltage is strictly positive and 0 elsewhere, so
  every entry is 0 or 1 and an entry at exactly 0 gives 0; and the forward value is the
  same for every dampening factor.
\<close>

theorem SpikeFunction_forward:
  "same_shape (fst (SpikeFunction x d)) x
   \<and> (\<forall>b < length x. \<forall>j < length (x ! b).
        fst (SpikeFunction x d) ! b ! j = (if x ! b ! j > 0 then 1 else 0)
        \<and> fst (SpikeFunction x d) ! b ! j \<in> {0, 1}
        \<and> (x ! b ! j = 0 \<longrightarrow> fst (SpikeFunction x d) ! b ! j = 0))
   \<and> fst (SpikeFunction x d) = fst (SpikeFunction x d')"
  by (simp add: SpikeFunction_fwd same_shape_def comp_def)

theorem SpikeFunction_forward_witness:
  "fst (SpikeFunction [[- 1, 0, 1 / 2], [3, - 2, 0]] (3 / 10)) = [[0, 0, 1], [1, 0, 0]]
   \<and> fst (SpikeFunction [[- 1, 0, 1 / 2], [3, - 2, 0]] (3 / 10)) ! 0 ! 1 = 0
   \<and> fst (SpikeFunction [[- 1, 0, 1 / 2], [3, - 2, 0]] (3 / 10)) ! 1 ! 0 = 1"
  using SpikeFunction_forward [of "[[- 1, 0, 1 / 2], [3, - 2, 0]]" "3 / 10" 1]
  by (simp add: SpikeFunction_fwd)

text \<open>
  C5. For an incoming gradient of the shape of the scaled voltage, the backward rule
  returns, for the scaled voltage, the incoming gradient times the pseudo derivative
  \<open>max (1 - |p|) 0 * d\<close>, entry by entry, and for the dampening factor exactly zero.
\<close>

theorem SpikeFunction_backward:
  assumes "same_shape dy x"
  shows "same_shape (fst (snd (SpikeFunction x d) dy)) x
   \<and> (\<forall>b < length x. \<forall>j < length (x ! b).
        pseudo_derivative x d ! b ! j = max (1 - \<bar>x ! b ! j\<bar>) 0 * d
        \<and> fst (snd (SpikeFunction x d) dy) ! b ! j = dy ! b ! j * pseudo_derivative x d ! b ! j)
   \<and> snd (snd (SpikeFunction x d) dy) = 0"
proof -
  have len: "length dy = length x"
    using assms by (rule same_shape_length)
  have row: "\<And>b. b < length x \<Longrightarrow> length (dy ! b) = length (x ! b)"
    using assms len by (simp add: same_shape_row)
  have g: "fst (snd (SpikeFunction x d) dy) = t_mul_t dy (pseudo_derivative x d)"
    by (simp add: SpikeFunction_def SpikeFunction_grad_def)
  have shp: "same_shape (t_mul_t dy (pseudo_derivative x d)) x"
    unfolding same_shape_def t_mul_t_def pseudo_derivative_entries
    by (rule nth_equalityI) (simp_all add: len row)
  have ent: "t_mul_t dy (pseudo_derivative x d) ! b ! j = dy ! b ! j * (max (1 - \<bar>x ! b ! j\<bar>) 0 * d)"
    if "b < length x" "j < length (x ! b)" for b j
    using that by (simp add: t_mul_t_def pseudo_derivative_entries len row)
  have pd: "pseudo_derivative x d ! b ! j = max (1 - \<bar>x ! b ! j\<bar>) 0 * d"
    if "b < length x" "j < length (x ! b)" for b j
    using that by (simp add: pseudo_derivative_entries)
  have zero: "snd (snd (SpikeFunction x d) dy) = 0"
    by (simp add: SpikeFunction_def SpikeFunction_grad_def)
  show ?thesis
    using shp ent pd zero unfolding g by simp
qed

theorem SpikeFunction_backward_witness:
  "same_shape [[2, 4, 6 :: real]] [[- 1 / 2, 0, 3 :: real]]
   \<and> snd (SpikeFunction [[- 1 / 2, 0, 3]] (3 / 10)) [[2, 4, 6]] = ([[3 / 10, 12 / 10, 0]], 0)"
proof -
  have h: "same_shape [[2, 4, 6 :: real]] [[- 1 / 2, 0, 3 :: real]]"
    by (simp add: same_shape_def)
  have e: "snd (SpikeFunction [[- 1 / 2, 0, 3]] (3 / 10)) [[2, 4, 6]] = ([[3 / 10, 12 / 10, 0]], 0)"
    by (simp add: SpikeFunction_def SpikeFunction_grad_def pseudo_derivative_entries t_mul_t_def)
  show ?thesis
    using h e SpikeFunction_backward [OF h, of "3 / 10"] by simp
qed

section \<open>The gradient checker: what it prints and how it ends\<close>

lemma is_correct_of_shape:
  "same_shape e t \<Longrightarrow> same_shape (is_correct_of e t) e"
  unfolding same_shape_def is_correct_of_def np_less_def np_abs_def t_sub_t_def
  apply (rule nth_equalityI)
   apply simp
   apply (metis length_map min.idem)
  apply simp
  by (metis length_map nth_map min.idem)

lemma is_correct_of_nth:
  assumes "same_shape e t" "i < length e" "j < length (e ! i)"
  shows "is_correct_of e t ! i ! j = (\<bar>e ! i ! j - t ! i ! j\<bar> < 1 / 10000)"
proof -
  have l: "length t = length e" using assms(1) by (simp add: same_shape_length)
  have r: "length (t ! i) = length (e ! i)" using assms(1,2) by (simp add: same_shape_row)
  show ?thesis
    using assms(2,3) l r by (simp add: is_correct_of_def np_less_def np_abs_def t_sub_t_def)
qed

lemma np_all_is_correct_of:
  assumes "same_shape e t"
  shows "np_all (is_correct_of e t) = (\<forall>i<length e. \<forall>j<length (e ! i). \<bar>e ! i ! j - t ! i ! j\<bar> < 1 / 10000)"
proof -
  have l: "length (is_correct_of e t) = length e"
    using is_correct_of_shape [OF assms] by (rule same_shape_length)
  have r: "\<And>i. i < length e \<Longrightarrow> length (is_correct_of e t ! i) = length (e ! i)"
    using is_correct_of_shape [OF assms] l by (simp add: same_shape_row)
  show ?thesis
    unfolding np_all_def list_all_length l
    using r is_correct_of_nth [OF assms] by auto
qed

lemma loop_all_pass:
  "n + length vs \<le> length eg \<Longrightarrow> n + length vs \<le> length tg \<Longrightarrow>
   (\<And>k. k < length vs \<Longrightarrow> np_all (is_correct_of (eg ! (n + k)) (tg ! (n + k)))) \<Longrightarrow>
   check_gradients_loop (enumerate n vs) eg tg = (map correct_line vs, Inr ())"
proof (induction vs arbitrary: n)
  case Nil
  then show ?case by simp
next
  case (Cons a vs)
  have p0: "np_all (is_correct_of (eg ! n) (tg ! n))"
    using Cons.prems(3) [of 0] by simp
  have rest: "check_gradients_loop (enumerate (Suc n) vs) eg tg = (map correct_line vs, Inr ())"
  proof (rule Cons.IH)
    show "Suc n + length vs \<le> length eg" using Cons.prems(1) by simp
    show "Suc n + length vs \<le> length tg" using Cons.prems(2) by simp
    show "np_all (is_correct_of (eg ! (Suc n + k)) (tg ! (Suc n + k)))" if "k < length vs" for k
      using Cons.prems(3) [of "Suc k"] that by simp
  qed
  show ?case
    using Cons.prems(1,2) p0 rest by (simp add: is_correct_of_def Let_def)
qed

lemma loop_first_fail:
  "k < length vs \<Longrightarrow> n + k < length eg \<Longrightarrow> n + k < length tg \<Longrightarrow>
   (\<And>k'. k' < k \<Longrightarrow> np_all (is_correct_of (eg ! (n + k')) (tg ! (n + k')))) \<Longrightarrow>
   \<not> np_all (is_correct_of (eg ! (n + k)) (tg ! (n + k))) \<Longrightarrow>
   check_gradients_loop (enumerate n vs) eg tg =
     (map correct_line (take k vs) @
        print_wrong (vs ! k) (eg ! (n + k)) (tg ! (n + k)) (t_sub_t (eg ! (n + k)) (tg ! (n + k)))
          (is_correct_of (eg ! (n + k)) (tg ! (n + k))),
      Inl ValueError)"
proof (induction vs arbitrary: n k)
  case Nil
  then show ?case by simp
next
  case (Cons a vs)
  show ?case
  proof (cases k)
    case 0
    then show ?thesis
      using Cons.prems by (simp add: is_correct_of_def Let_def)
  next
    case (Suc m)
    have p0: "np_all (is_correct_of (eg ! n) (tg ! n))"
      using Cons.prems(4) [of 0] Suc by simp
    have rest: "check_gradients_loop (enumerate (Suc n) vs) eg tg =
     (map correct_line (take m vs) @
        print_wrong (vs ! m) (eg ! (Suc n + m)) (tg ! (Suc n + m)) (t_sub_t (eg ! (Suc n + m)) (tg ! (Suc n + m)))
          (is_correct_of (eg ! (Suc n + m)) (tg ! (Suc n + m))),
      Inl ValueError)"
    proof (rule Cons.IH)
      show "m < length vs" using Cons.prems(1) Suc by simp
      show "Suc n + m < length eg" using Cons.prems(2) Suc by simp
      show "Suc n + m < length tg" using Cons.prems(3) Suc by simp
      show "np_all (is_correct_of (eg ! (Suc n + k')) (tg ! (Suc n + k')))" if "k' < m" for k'
        using Cons.prems(4) [of "Suc k'"] that Suc by simp
      show "\<not> np_all (is_correct_of (eg ! (Suc n + m)) (tg ! (Suc n + m)))"
        using Cons.prems(5) Suc by simp
    qed
    have len: "n < length eg" "n < length tg" using Cons.prems(2,3) by simp_all
    show ?thesis
      using len p0 rest Suc by (simp add: is_correct_of_def Let_def)
  qed
qed


lemma within_tolerance_refl: "within_tolerance g g"
  by (simp add: within_tolerance_def)

lemma np_all_within: "same_shape e t \<Longrightarrow> np_all (is_correct_of e t) = within_tolerance e t"
  unfolding within_tolerance_def by (rule np_all_is_correct_of)

lemma filter_upt_single:
  "(\<And>x. x < n \<Longrightarrow> P x = (x = j)) \<Longrightarrow> filter P [0..<n] = (if j < n then [j] else [])"
proof (induction n)
  case 0
  then show ?case by simp
next
  case (Suc n)
  have "filter P [0..<n] = (if j < n then [j] else [])"
    using Suc.prems by (intro Suc.IH) simp
  moreover have "P n = (n = j)" using Suc.prems [of n] by simp
  ultimately show ?case by auto
qed

lemma concat_upt_single:
  "(\<And>x. x < m \<Longrightarrow> f x = (if x = i then ys else [])) \<Longrightarrow>
   concat (map f [0..<m]) = (if i < m then ys else [])"
proof (induction m)
  case 0
  then show ?case by simp
next
  case (Suc m)
  have "concat (map f [0..<m]) = (if i < m then ys else [])"
    using Suc.prems by (intro Suc.IH) simp
  moreover have "f m = (if m = i then ys else [])" using Suc.prems [of m] by simp
  ultimately show ?case by auto
qed

text \<open>A gradient with one entry replaced.\<close>

lemma length_row_update:
  "i' < length t \<Longrightarrow> length (t[i := (t ! i)[j := x]] ! i') = length (t ! i')"
  by (cases "i' = i") simp_all

lemma same_shape_update: "same_shape (t[i := (t ! i)[j := x]]) t"
  unfolding same_shape_def
  by (rule nth_equalityI) (simp_all add: length_row_update)

lemma one_entry_is_correct:
  assumes "i < length t" "j < length (t ! i)" "\<bar>x - t ! i ! j\<bar> = 2 / 10000"
    and "i' < length t" "j' < length (t ! i')"
  shows "is_correct_of (t[i := (t ! i)[j := x]]) t ! i' ! j' = (\<not> (i' = i \<and> j' = j))"
proof -
  let ?e = "t[i := (t ! i)[j := x]]"
  have a: "i' < length ?e" using assms(4) by simp
  have b: "j' < length (?e ! i')" using assms(4,5) by (simp add: length_row_update)
  have "is_correct_of ?e t ! i' ! j' = (\<bar>?e ! i' ! j' - t ! i' ! j'\<bar> < 1 / 10000)"
    using same_shape_update a b by (rule is_correct_of_nth)
  also have "\<dots> = (\<not> (i' = i \<and> j' = j))"
    using assms by (auto simp: nth_list_update)
  finally show ?thesis .
qed

lemma one_entry_mismatch_indices:
  assumes "i < length t" "j < length (t ! i)" "\<bar>x - t ! i ! j\<bar> = 2 / 10000"
  shows "np_where (one_minus (is_correct_of (t[i := (t ! i)[j := x]]) t)) = ([i], [j])"
proof -
  let ?e = "t[i := (t ! i)[j := x]]"
  let ?c = "is_correct_of ?e t"
  have sh: "same_shape ?c ?e"
    using same_shape_update by (rule is_correct_of_shape)
  have l: "length (one_minus ?c) = length t"
    using same_shape_length [OF sh] by (simp add: one_minus_def)
  have r: "length (one_minus ?c ! i') = length (t ! i')" if "i' < length t" for i'
  proof -
    have "length (?c ! i') = length (?e ! i')"
      using sh that same_shape_length [OF sh] by (simp add: same_shape_row)
    also have "\<dots> = length (t ! i')"
      using that by (simp add: length_row_update)
    finally show ?thesis
      using that same_shape_length [OF sh] by (simp add: one_minus_def)
  qed
  have nz: "(one_minus ?c ! i' ! j' \<noteq> 0) = (i' = i \<and> j' = j)"
    if "i' < length t" "j' < length (t ! i')" for i' j'
  proof -
    have "length ?c = length t" using same_shape_length [OF sh] by simp
    moreover have "length (?c ! i') = length (t ! i')"
      using r [OF that(1)] that(1) calculation by (simp add: one_minus_def)
    ultimately have "one_minus ?c ! i' ! j' = 1 - (if ?c ! i' ! j' then 1 else 0)"
      using that by (simp add: one_minus_def)
    then show ?thesis
      using one_entry_is_correct [OF assms that] by simp
  qed
  have row: "map (\<lambda>j'. (i', j')) (filter (\<lambda>j'. one_minus ?c ! i' ! j' \<noteq> 0) [0..<length (one_minus ?c ! i')])
      = (if i' = i then [(i, j)] else [])" if "i' < length t" for i'
  proof -
    have "filter (\<lambda>j'. one_minus ?c ! i' ! j' \<noteq> 0) [0..<length (t ! i')]
        = (if i' = i then [j] else [])"
    proof (cases "i' = i")
      case True
      have "filter (\<lambda>j'. one_minus ?c ! i' ! j' \<noteq> 0) [0..<length (t ! i')]
          = (if j < length (t ! i') then [j] else [])"
      proof (rule filter_upt_single)
        fix j' assume "j' < length (t ! i')"
        then show "(one_minus ?c ! i' ! j' \<noteq> 0) = (j' = j)"
          using nz [OF that] True by simp
      qed
      then show ?thesis using True assms(2) by simp
    next
      case False
      have "filter (\<lambda>j'. one_minus ?c ! i' ! j' \<noteq> 0) [0..<length (t ! i')] = []"
        using nz that False by (simp add: filter_empty_conv)
      then show ?thesis using False by simp
    qed
    then show ?thesis by (simp add: r [OF that])
  qed
  have "concat (map (\<lambda>i'. map (\<lambda>j'. (i', j'))
           (filter (\<lambda>j'. one_minus ?c ! i' ! j' \<noteq> 0) [0..<length (one_minus ?c ! i')]))
         [0..<length t]) = (if i < length t then [(i, j)] else [])"
    by (rule concat_upt_single) (rule row)
  then show ?thesis
    using assms(1) by (simp add: np_where_def l)
qed


lemma print_wrong_first: "wrong_line p \<in> set (print_wrong p e t d c)"
  by (simp add: print_wrong_def Let_def)

text \<open>
  C9. With two identical gradient lists, as long as the parameter list, the checker
  reports every parameter correct and returns. With two lists that are identical but for
  one entry \<open>(i, j)\<close> of one parameter \<open>k\<close>, where they differ by \<open>2e-4\<close> in absolute
  value, it reports the parameters before \<open>k\<close> correct, reports \<open>k\<close> wrong, prints
  \<open>(i, j)\<close> (and nothing else) as its mismatch indices, and raises.
\<close>

theorem check_gradients_identical_or_one_entry:
  assumes "length tg = length vs"
  shows "check_gradients vs tg tg = (map correct_line vs, Inr ())
   \<and> (\<forall>k<length vs. \<forall>i<length (tg ! k). \<forall>j<length (tg ! k ! i). \<forall>x.
         \<bar>x - tg ! k ! i ! j\<bar> = 2 / 10000 \<longrightarrow>
         (let e = (tg ! k)[i := (tg ! k ! i)[j := x]]; eg = tg[k := e]
          in check_gradients vs eg tg
               = (map correct_line (take k vs)
                    @ print_wrong (vs ! k) e (tg ! k) (t_sub_t e (tg ! k)) (is_correct_of e (tg ! k)),
                  Inl ValueError)
             \<and> wrong_line (vs ! k) \<in> set (fst (check_gradients vs eg tg))
             \<and> Idx ''mismatch indices'' [(i, j)] \<in> set (fst (check_gradients vs eg tg))))"
proof -
  have same: "check_gradients vs tg tg = (map correct_line vs, Inr ())"
    unfolding check_gradients_def
  proof (rule loop_all_pass)
    show "0 + length vs \<le> length tg" using assms by simp
    then show "0 + length vs \<le> length tg" .
    show "np_all (is_correct_of (tg ! (0 + k)) (tg ! (0 + k)))" for k
      by (simp add: np_all_within same_shape_refl within_tolerance_refl)
  qed
  have one: "check_gradients vs (tg[k := (tg ! k)[i := (tg ! k ! i)[j := x]]]) tg
               = (map correct_line (take k vs)
                    @ print_wrong (vs ! k) ((tg ! k)[i := (tg ! k ! i)[j := x]]) (tg ! k)
                        (t_sub_t ((tg ! k)[i := (tg ! k ! i)[j := x]]) (tg ! k))
                        (is_correct_of ((tg ! k)[i := (tg ! k ! i)[j := x]]) (tg ! k)),
                  Inl ValueError)
             \<and> wrong_line (vs ! k) \<in> set (fst (check_gradients vs (tg[k := (tg ! k)[i := (tg ! k ! i)[j := x]]]) tg))
             \<and> Idx ''mismatch indices'' [(i, j)]
                 \<in> set (fst (check_gradients vs (tg[k := (tg ! k)[i := (tg ! k ! i)[j := x]]]) tg))"
    if k: "k < length vs" and i: "i < length (tg ! k)" and j: "j < length (tg ! k ! i)"
      and x: "\<bar>x - tg ! k ! i ! j\<bar> = 2 / 10000" for k i j x
  proof -
    let ?e = "(tg ! k)[i := (tg ! k ! i)[j := x]]"
    let ?eg = "tg[k := ?e]"
    have kt: "k < length tg" using k assms by simp
    have ek: "?eg ! k = ?e" using kt by simp
    have bad: "\<not> np_all (is_correct_of ?e (tg ! k))"
    proof -
      have "\<not> is_correct_of ?e (tg ! k) ! i ! j"
        using one_entry_is_correct [OF i j x i j] by simp
      moreover have "i < length (is_correct_of ?e (tg ! k))"
        using same_shape_length [OF is_correct_of_shape [OF same_shape_update, of "tg ! k" i j x]] i
        by simp
      moreover have "j < length (is_correct_of ?e (tg ! k) ! i)"
        using same_shape_row [OF is_correct_of_shape [OF same_shape_update, of "tg ! k" i j x], of i]
          i j calculation(2)
        by (simp add: length_row_update)
      ultimately show ?thesis
        unfolding np_all_def list_all_length by blast
    qed
    have before: "np_all (is_correct_of (?eg ! (0 + k')) (tg ! (0 + k')))" if "k' < k" for k'
      using that by (simp add: np_all_within same_shape_refl within_tolerance_refl)
    have run: "check_gradients_loop (enumerate 0 vs) ?eg tg =
       (map correct_line (take k vs) @
        print_wrong (vs ! k) (?eg ! (0 + k)) (tg ! (0 + k)) (t_sub_t (?eg ! (0 + k)) (tg ! (0 + k)))
          (is_correct_of (?eg ! (0 + k)) (tg ! (0 + k))),
        Inl ValueError)"
    proof (rule loop_first_fail)
      show "k < length vs" by (rule k)
      show "0 + k < length ?eg" using kt by simp
      show "0 + k < length tg" using kt by simp
      show "np_all (is_correct_of (?eg ! (0 + k')) (tg ! (0 + k')))" if "k' < k" for k'
        using that by (rule before)
      show "\<not> np_all (is_correct_of (?eg ! (0 + k)) (tg ! (0 + k)))"
        using bad ek by simp
    qed
    have eq: "check_gradients vs ?eg tg =
       (map correct_line (take k vs) @
        print_wrong (vs ! k) ?e (tg ! k) (t_sub_t ?e (tg ! k)) (is_correct_of ?e (tg ! k)),
        Inl ValueError)"
      using run ek by (simp add: check_gradients_def)
    have idx: "Idx ''mismatch indices'' [(i, j)]
        \<in> set (print_wrong (vs ! k) ?e (tg ! k) (t_sub_t ?e (tg ! k)) (is_correct_of ?e (tg ! k)))"
      by (simp add: print_wrong_def Let_def one_entry_mismatch_indices [OF i j x])
    show ?thesis
      unfolding eq using idx print_wrong_first by simp
  qed
  show ?thesis
    unfolding Let_def using same one by blast
qed


theorem check_gradients_identical_or_one_entry_witness:
  "check_gradients [Variable ''w_in'', Variable ''w_rec''] [[[1, 2]], [[3, 4], [5, 6]]] [[[1, 2]], [[3, 4], [5, 6]]]
     = ([correct_line (Variable ''w_in''), correct_line (Variable ''w_rec'')], Inr ())
   \<and> wrong_line (Variable ''w_rec'')
       \<in> set (fst (check_gradients [Variable ''w_in'', Variable ''w_rec'']
                 [[[1, 2]], [[3, 4], [5 + 2 / 10000, 6]]] [[[1, 2]], [[3, 4], [5, 6]]]))
   \<and> Idx ''mismatch indices'' [(1, 0)]
       \<in> set (fst (check_gradients [Variable ''w_in'', Variable ''w_rec'']
                 [[[1, 2]], [[3, 4], [5 + 2 / 10000, 6]]] [[[1, 2]], [[3, 4], [5, 6]]]))
   \<and> snd (check_gradients [Variable ''w_in'', Variable ''w_rec'']
                 [[[1, 2]], [[3, 4], [5 + 2 / 10000, 6]]] [[[1, 2]], [[3, 4], [5, 6]]]) = Inl ValueError"
proof -
  have h: "length [[[1, 2]], [[3, 4], [5, 6 :: real]]] = length [Variable ''w_in'', Variable ''w_rec'']"
    by simp
  note T = check_gradients_identical_or_one_entry [OF h]
  have a: "check_gradients [Variable ''w_in'', Variable ''w_rec''] [[[1, 2]], [[3, 4], [5, 6]]] [[[1, 2]], [[3, 4], [5, 6]]]
     = ([correct_line (Variable ''w_in''), correct_line (Variable ''w_rec'')], Inr ())"
    using T [THEN conjunct1] by simp
  have pre: "1 < length [Variable ''w_in'', Variable ''w_rec'']"
    "1 < length ([[[1, 2]], [[3, 4], [5, 6 :: real]]] ! 1)"
    "0 < length ([[[1, 2]], [[3, 4], [5, 6 :: real]]] ! 1 ! 1)"
    "\<bar>(5 + 2 / 10000) - [[[1, 2]], [[3, 4], [5, 6 :: real]]] ! 1 ! 1 ! 0\<bar> = 2 / 10000"
    by simp_all
  have eg: "[[[1, 2]], [[3, 4], [5 + 2 / 10000, 6 :: real]]]
      = [[[1, 2]], [[3, 4], [5, 6]]]
          [1 := ([[[1, 2]], [[3, 4], [5, 6]]] ! 1)
             [1 := ([[[1, 2]], [[3, 4], [5, 6]]] ! 1 ! 1)[0 := 5 + 2 / 10000]]]"
    by simp
  note U = T [THEN conjunct2, rule_format, OF pre, unfolded Let_def, folded eg]
  have d: "snd (check_gradients [Variable ''w_in'', Variable ''w_rec'']
                 [[[1, 2]], [[3, 4], [5 + 2 / 10000, 6]]] [[[1, 2]], [[3, 4], [5, 6]]]) = Inl ValueError"
    using U [THEN conjunct1] by simp
  have vk: "[Variable ''w_in'', Variable ''w_rec''] ! 1 = Variable ''w_rec''"
    by simp
  note V = U [THEN conjunct2, unfolded vk]
  show ?thesis
    by (intro conjI a d V [THEN conjunct1] V [THEN conjunct2])
qed

text \<open>
  C1, as stated, fails: the checker raises inside the loop, at the first parameter that
  mismatches. Here both parameters mismatch; the first is reported, the exception is
  raised, and nothing is printed for the second.
\<close>

theorem check_gradients_raises_at_first_mismatch:
  "check_gradients [Variable ''w_in'', Variable ''w_rec''] [[[1]], [[1]]] [[[0]], [[0]]]
     = ([wrong_line (Variable ''w_in''), Str ''E-prop'', Arr [[1]], Str ''True gradients'', Arr [[0]],
         Str ''Difference'', Arr [[1]], Str ''Ratio'', Arr [[100000000]],
         Idx ''mismatch indices'' [(0, 0)], Vals ''diff. vals'' [1]],
        Inl ValueError)
   \<and> wrong_line (Variable ''w_rec'')
       \<notin> set (fst (check_gradients [Variable ''w_in'', Variable ''w_rec''] [[[1]], [[1]]] [[[0]], [[0]]]))
   \<and> correct_line (Variable ''w_rec'')
       \<notin> set (fst (check_gradients [Variable ''w_in'', Variable ''w_rec''] [[[1]], [[1]]] [[[0]], [[0]]]))"
  by (simp add: check_gradients_def print_wrong_def np_where_def one_minus_def np_less_def np_abs_def
      t_sub_t_def np_all_def slice5_def t_div_t_def s_add_t_def Let_def)

text \<open>
  C1, amended. For index-aligned lists of gradients of matching shapes: when every
  parameter is within the tolerance, every parameter is reported correct and the checker
  returns; otherwise, with \<open>k\<close> the first parameter out of tolerance, the parameters before
  \<open>k\<close> are reported correct, \<open>k\<close> is reported wrong with its diagnostics, and
  \<^verbatim>\<open>ValueError\<close> is raised there: the output does not depend on the parameters after \<open>k\<close>.
\<close>

theorem check_gradients_until_first_failure:
  assumes "length eg = length vs" and "length tg = length vs"
    and "\<forall>k<length vs. same_shape (eg ! k) (tg ! k)"
  shows "((\<forall>k<length vs. within_tolerance (eg ! k) (tg ! k)) \<longrightarrow>
            check_gradients vs eg tg = (map correct_line vs, Inr ()))
   \<and> (\<forall>k<length vs.
         (\<forall>k'<k. within_tolerance (eg ! k') (tg ! k')) \<and> \<not> within_tolerance (eg ! k) (tg ! k) \<longrightarrow>
         check_gradients vs eg tg
           = (map correct_line (take k vs)
                @ print_wrong (vs ! k) (eg ! k) (tg ! k) (t_sub_t (eg ! k) (tg ! k))
                    (is_correct_of (eg ! k) (tg ! k)),
              Inl ValueError))"
proof -
  have p: "np_all (is_correct_of (eg ! k) (tg ! k)) = within_tolerance (eg ! k) (tg ! k)"
    if "k < length vs" for k
    using assms(3) that by (simp add: np_all_within)
  have a: "check_gradients vs eg tg = (map correct_line vs, Inr ())"
    if "\<forall>k<length vs. within_tolerance (eg ! k) (tg ! k)"
    unfolding check_gradients_def
  proof (rule loop_all_pass)
    show "0 + length vs \<le> length eg" using assms(1) by simp
    show "0 + length vs \<le> length tg" using assms(2) by simp
    show "np_all (is_correct_of (eg ! (0 + k)) (tg ! (0 + k)))" if "k < length vs" for k
      using p [OF that] \<open>\<forall>k<length vs. within_tolerance (eg ! k) (tg ! k)\<close> that by simp
  qed
  have b: "check_gradients vs eg tg
           = (map correct_line (take k vs)
                @ print_wrong (vs ! k) (eg ! k) (tg ! k) (t_sub_t (eg ! k) (tg ! k))
                    (is_correct_of (eg ! k) (tg ! k)),
              Inl ValueError)"
    if k: "k < length vs" and before: "\<forall>k'<k. within_tolerance (eg ! k') (tg ! k')"
      and bad: "\<not> within_tolerance (eg ! k) (tg ! k)" for k
  proof -
    have "check_gradients_loop (enumerate 0 vs) eg tg =
       (map correct_line (take k vs) @
        print_wrong (vs ! k) (eg ! (0 + k)) (tg ! (0 + k)) (t_sub_t (eg ! (0 + k)) (tg ! (0 + k)))
          (is_correct_of (eg ! (0 + k)) (tg ! (0 + k))),
        Inl ValueError)"
    proof (rule loop_first_fail)
      show "k < length vs" by (rule k)
      show "0 + k < length eg" using k assms(1) by simp
      show "0 + k < length tg" using k assms(2) by simp
      show "np_all (is_correct_of (eg ! (0 + k')) (tg ! (0 + k')))" if "k' < k" for k'
        using that k before p [of k'] by simp
      show "\<not> np_all (is_correct_of (eg ! (0 + k)) (tg ! (0 + k)))"
        using bad p [OF k] by simp
    qed
    then show ?thesis by (simp add: check_gradients_def)
  qed
  show ?thesis using a b by blast
qed


theorem check_gradients_until_first_failure_witness:
  "length [[[0]], [[1]], [[1 :: real]]] = length [Variable ''a'', Variable ''b'', Variable ''c'']
   \<and> \<not> within_tolerance [[1]] [[0]]
   \<and> check_gradients [Variable ''a'', Variable ''b'', Variable ''c''] [[[0]], [[1]], [[1]]] [[[0]], [[0]], [[0]]]
       = (correct_line (Variable ''a'')
            # print_wrong (Variable ''b'') [[1]] [[0]] (t_sub_t [[1]] [[0]]) (is_correct_of [[1]] [[0]]),
          Inl ValueError)
   \<and> check_gradients [Variable ''a'', Variable ''b'', Variable ''c''] [[[0]], [[0]], [[0]]] [[[0]], [[0]], [[0]]]
       = ([correct_line (Variable ''a''), correct_line (Variable ''b''), correct_line (Variable ''c'')],
          Inr ())"
proof -
  let ?vs = "[Variable ''a'', Variable ''b'', Variable ''c'']"
  let ?eg = "[[[0]], [[1]], [[1 :: real]]]"
  let ?tg = "[[[0]], [[0]], [[0 :: real]]]"
  have l1: "length ?eg = length ?vs" and l2: "length ?tg = length ?vs"
    by simp_all
  have sh: "\<forall>k<length ?vs. same_shape (?eg ! k) (?tg ! k)"
    by (simp add: same_shape_def less_Suc_eq numeral_3_eq_3 all_conj_distrib)
  have sh': "\<forall>k<length ?vs. same_shape (?tg ! k) (?tg ! k)"
    by (simp add: same_shape_refl)
  have bad: "\<not> within_tolerance [[1]] [[0]]"
    by (simp add: within_tolerance_def)
  have ok: "within_tolerance [[0]] [[0]]"
    by (simp add: within_tolerance_def)
  have first: "1 < length ?vs"
    by simp
  have cond: "(\<forall>k'<1. within_tolerance (?eg ! k') (?tg ! k')) \<and> \<not> within_tolerance (?eg ! 1) (?tg ! 1)"
    using bad ok by simp
  have allok: "\<forall>k<length ?vs. within_tolerance (?tg ! k) (?tg ! k)"
    by (simp add: within_tolerance_refl)
  have a: "check_gradients ?vs ?eg ?tg
       = (correct_line (Variable ''a'')
            # print_wrong (Variable ''b'') [[1]] [[0]] (t_sub_t [[1]] [[0]]) (is_correct_of [[1]] [[0]]),
          Inl ValueError)"
    using check_gradients_until_first_failure [OF l1 l2 sh, THEN conjunct2, THEN spec, of 1,
        THEN mp, OF first, THEN mp, OF cond]
    by simp
  have b: "check_gradients ?vs ?tg ?tg
       = ([correct_line (Variable ''a''), correct_line (Variable ''b''), correct_line (Variable ''c'')],
          Inr ())"
    using check_gradients_until_first_failure [OF l2 l2 sh', THEN conjunct1, THEN mp, OF allok]
    by simp
  show ?thesis
    by (intro conjI l1 bad a b)
qed

section \<open>The tolerance test at the precision of the arrays\<close>






text \<open>With no rounding the model at the precision of the arrays is the model over the reals.\<close>

lemma check_gradients_loop_fl_exact:
  "check_gradients_loop_fl (\<lambda>x. x) xs eg tg = check_gradients_loop xs eg tg"
  by (induction xs eg tg rule: check_gradients_loop.induct)
    (simp_all add: print_wrong_fl_def print_wrong_def fl_sub_def fl_div_def fl_s_add_def
      t_sub_t_def t_div_t_def s_add_t_def Let_def)

lemma check_gradients_fl_exact: "check_gradients_fl (\<lambda>x. x) vs eg tg = check_gradients vs eg tg"
  by (simp add: check_gradients_fl_def check_gradients_def check_gradients_loop_fl_exact)









section \<open>The cell: one step, entry by entry\<close>

lemma tab_nth: "i < r \<Longrightarrow> j < c \<Longrightarrow> tab r c f ! i ! j = f i j"
  by (simp add: tab_def)

lemma length_tab: "length (tab r c f) = r"
  by (simp add: tab_def)

lemma length_tab_row: "i < r \<Longrightarrow> length (tab r c f ! i) = c"
  by (simp add: tab_def)

lemma mat_shape_tab: "mat_shape (tab r c f) r c"
  by (auto simp: mat_shape_def tab_def)

lemma tab_cong: "(\<And>i j. i < r \<Longrightarrow> j < c \<Longrightarrow> f i j = g i j) \<Longrightarrow> tab r c f = tab r c g"
  by (simp add: tab_def)

lemma mat_shape_row: "mat_shape m r c \<Longrightarrow> i < r \<Longrightarrow> length (m ! i) = c"
  by (simp add: mat_shape_def)

lemma mat_shape_tab_eq:
  assumes "mat_shape m r c"
  shows "m = tab r c (\<lambda>i j. m ! i ! j)"
proof (rule nth_equalityI)
  show "length m = length (tab r c (\<lambda>i j. m ! i ! j))"
    using assms by (simp add: mat_shape_def length_tab)
  fix i assume "i < length m"
  then have i: "i < r" using assms by (simp add: mat_shape_def)
  show "m ! i = tab r c (\<lambda>i j. m ! i ! j) ! i"
    by (rule nth_equalityI) (simp_all add: i tab_def mat_shape_row [OF assms])
qed

lemma tab_map: "map (map g) (tab r c f) = tab r c (\<lambda>i j. g (f i j))"
  by (simp add: tab_def comp_def)

lemma tab_map2: "map2 (map2 g) (tab r c f) (tab r c h) = tab r c (\<lambda>i j. g (f i j) (h i j))"
  unfolding tab_def
  by (rule nth_equalityI) (auto intro!: nth_equalityI)

lemma tf_zeros_tab: "tf_zeros (r, c) = tab r c (\<lambda>i j. 0)"
  by (simp add: tf_zeros_def tab_def map_replicate_const)

lemma ncols_shape: "mat_shape m r c \<Longrightarrow> 0 < r \<Longrightarrow> ncols m = c"
  by (cases m) (auto simp: mat_shape_def ncols_def)

lemma sum_list_map2:
  "length xs = length ys \<Longrightarrow> sum_list (map2 f xs ys) = (\<Sum>k<length xs. f (xs ! k) (ys ! k))"
  by (simp add: sum_list_sum_nth atLeast0LessThan)

lemma ncols_square: "mat_shape m c c \<Longrightarrow> ncols m = c"
  by (cases m) (auto simp: mat_shape_def ncols_def)

lemma tf_matmul_tab:
  assumes "mat_shape a r k" "mat_shape b k c" "ncols b = c"
  shows "tf_matmul a b = tab r c (\<lambda>i j. \<Sum>l<k. a ! i ! l * b ! l ! j)"
proof -
  have nc: "ncols b = c" by (rule assms(3))
  have lb: "length b = k" using assms(2) by (simp add: mat_shape_def)
  have la: "length a = r" using assms(1) by (simp add: mat_shape_def)
  have row: "sum_list (map2 (\<lambda>x brow. x * brow ! j) (a ! i) b) = (\<Sum>l<k. a ! i ! l * b ! l ! j)"
    if "i < r" for i j
    using sum_list_map2 [of "a ! i" b "\<lambda>x brow. x * brow ! j"] mat_shape_row [OF assms(1) that] lb
    by simp
  show ?thesis
    unfolding tf_matmul_def nc tab_def
    by (rule nth_equalityI) (simp_all add: la row)
qed

lemma tf_where_tab:
  "tf_where (tab r c m) (tab r c f) (tab r c g) = tab r c (\<lambda>i j. if m i j then f i j else g i j)"
  unfolding tf_where_def tab_def
  by (rule nth_equalityI) (auto intro!: nth_equalityI)

lemma np_diag_ones_tab: "np_diag (np_ones n) = tab n n (\<lambda>i j. i = j)"
  unfolding np_diag_def np_ones_def tab_def by simp

lemma tf_zeros_like_tab: "mat_shape m r c \<Longrightarrow> tf_zeros_like m = tab r c (\<lambda>i j. 0)"
  using mat_shape_tab_eq [of m r c] tab_map [of "\<lambda>a. 0" r c "\<lambda>i j. m ! i ! j"]
  by (simp add: tf_zeros_like_def)

lemma w_rec_val_tab:
  assumes "mat_shape (w_rec_var self) n n" "recurrent_disconnect_mask self = np_diag (np_ones n)"
  shows "w_rec_val self = tab n n (\<lambda>i j. if i = j then 0 else w_rec_var self ! i ! j)"
proof -
  have "w_rec_val self
      = tf_where (tab n n (\<lambda>i j. i = j)) (tab n n (\<lambda>i j. 0)) (tab n n (\<lambda>i j. w_rec_var self ! i ! j))"
    unfolding w_rec_val_def assms(2) np_diag_ones_tab tf_zeros_like_tab [OF assms(1)]
    using mat_shape_tab_eq [OF assms(1)] by simp
  then show ?thesis by (simp add: tf_where_tab)
qed

lemma LightLIF_call_tab:
  assumes ok: "cell_ok c"
    and inp: "mat_shape inputs B (n_in c)"
    and sv: "mat_shape (v st) B (n_rec c)"
    and sz: "mat_shape (z st) B (n_rec c)"
  shows "LightLIF_call c inputs st =
     ([tab B (n_rec c) (spec_z_next c inputs st), tab B (n_rec c) (spec_v_next c inputs st)],
      \<lparr>v = tab B (n_rec c) (spec_v_next c inputs st), z = tab B (n_rec c) (spec_z_next c inputs st)\<rparr>)"
proof -
  let ?N = "n_rec c"
  have win: "mat_shape (w_in_var c) (n_in c) ?N" and wrec: "mat_shape (w_rec_var c) ?N ?N"
    and mask: "recurrent_disconnect_mask c = np_diag (np_ones ?N)"
    and dec: "decay c = exp (- dt c / tau c)" and pos: "0 < n_in c"
    using ok by (simp_all add: cell_ok_def)
  have wr: "w_rec_val c = tab ?N ?N (\<lambda>i j. if i = j then 0 else w_rec_var c ! i ! j)"
    using wrec mask by (rule w_rec_val_tab)
  have m1: "tf_matmul inputs (w_in_val c) = tab B ?N (\<lambda>b j. \<Sum>k<n_in c. inputs ! b ! k * w_in_var c ! k ! j)"
    unfolding w_in_val_def tf_identity_def
    using inp win ncols_shape [OF win pos] by (rule tf_matmul_tab)
  have m2: "tf_matmul (z st) (w_rec_val c)
      = tab B ?N (\<lambda>b j. \<Sum>k<?N. z st ! b ! k * (if k = j then 0 else w_rec_var c ! k ! j))"
  proof -
    have sh: "mat_shape (w_rec_val c) ?N ?N"
      unfolding wr by (rule mat_shape_tab)
    have "tf_matmul (z st) (w_rec_val c) = tab B ?N (\<lambda>b j. \<Sum>k<?N. z st ! b ! k * w_rec_val c ! k ! j)"
      using sz sh ncols_square [OF sh] by (rule tf_matmul_tab)
    also have "\<dots> = tab B ?N (\<lambda>b j. \<Sum>k<?N. z st ! b ! k * (if k = j then 0 else w_rec_var c ! k ! j))"
    proof (rule tab_cong)
      fix b j assume "b < B" "j < ?N"
      show "(\<Sum>k<?N. z st ! b ! k * w_rec_val c ! k ! j)
          = (\<Sum>k<?N. z st ! b ! k * (if k = j then 0 else w_rec_var c ! k ! j))"
        by (rule sum.cong) (simp_all add: wr tab_nth \<open>j < ?N\<close>)
    qed
    finally show ?thesis .
  qed
  have it: "t_add_t (tf_matmul inputs (w_in_val c)) (tf_matmul (z st) (w_rec_val c))
      = tab B ?N (spec_i_t c inputs st)"
    unfolding m1 m2 t_add_t_def tab_map2 by (rule tab_cong) (simp add: spec_i_t_def)
  have zt: "z st = tab B ?N (\<lambda>b j. z st ! b ! j)" using sz by (rule mat_shape_tab_eq)
  have vt: "v st = tab B ?N (\<lambda>b j. v st ! b ! j)" using sv by (rule mat_shape_tab_eq)
  have reset: "t_mul_s (t_mul_s (z st) (thr c)) (dt c) = tab B ?N (\<lambda>b j. z st ! b ! j * thr c * dt c)"
    unfolding t_mul_s_def by (subst zt) (simp add: tab_map)
  have dv: "s_mul_t (decay c) (v st) = tab B ?N (\<lambda>b j. exp (- dt c / tau c) * v st ! b ! j)"
    unfolding s_mul_t_def dec by (subst vt) (simp add: tab_map)
  have newv: "t_sub_t (t_add_t (s_mul_t (decay c) (v st))
                 (s_mul_t (1 - decay c) (t_add_t (tf_matmul inputs (w_in_val c)) (tf_matmul (z st) (w_rec_val c)))))
               (t_mul_s (t_mul_s (z st) (thr c)) (dt c))
      = tab B ?N (spec_v_next c inputs st)"
    unfolding it reset dv
    unfolding s_mul_t_def t_add_t_def t_sub_t_def tab_map tab_map2 dec
    by (rule tab_cong) (simp add: spec_v_next_def)
  have newz: "t_div_s (t_mul_s (fst (SpikeFunction
                 (t_div_s (t_sub_s (tab B ?N (spec_v_next c inputs st)) (thr c)) (thr c))
                 (dampening_factor c))) 1) (dt c)
      = tab B ?N (spec_z_next c inputs st)"
    unfolding SpikeFunction_fwd t_div_s_def t_sub_s_def t_mul_s_def tab_map
    by (rule tab_cong) (simp add: spec_z_next_def)
  show ?thesis
    unfolding LightLIF_call_def Let_def tf_stop_gradient_def if_cancel newv newz
    by simp
qed

lemma cell_ok_init:
  "0 < nin \<Longrightarrow> mat_shape W_in nin nrec \<Longrightarrow> mat_shape W_rec nrec nrec \<Longrightarrow>
   cell_ok (LightLIF_init nin nrec tau0 thr0 dt0 d stop W_in W_rec)"
  by (simp add: cell_ok_def LightLIF_init_def)

lemma mat_shape_zeros: "mat_shape (tf_zeros (r, c)) r c"
  unfolding tf_zeros_tab by (rule mat_shape_tab)

lemma zero_state_None:
  "zero_state c B None = \<lparr>v = tf_zeros (B, n_rec c), z = tf_zeros (B, n_rec c)\<rparr>"
  by (simp add: zero_state_def Let_def)

lemma zero_step:
  assumes ok: "cell_ok c" and thr: "thr c \<noteq> 0"
  shows "LightLIF_call c (tf_zeros (B, n_in c)) (zero_state c B None)
      = ([tf_zeros (B, n_rec c), tf_zeros (B, n_rec c)], zero_state c B None)"
proof -
  let ?st = "zero_state c B None"
  let ?x = "tf_zeros (B, n_in c)"
  have sv: "v ?st = tf_zeros (B, n_rec c)" and sz: "z ?st = tf_zeros (B, n_rec c)"
    by (simp_all add: zero_state_None)
  have i0: "spec_i_t c ?x ?st b j = 0" if "b < B" for b j
    using that by (simp add: spec_i_t_def sz tf_zeros_tab tab_nth)
  have v0: "spec_v_next c ?x ?st b j = 0" if "b < B" "j < n_rec c" for b j
    unfolding spec_v_next_def i0 [OF that(1)] sv sz
    using that by (simp add: tf_zeros_tab tab_nth)
  have z0: "spec_z_next c ?x ?st b j = 0" if "b < B" "j < n_rec c" for b j
    unfolding spec_z_next_def v0 [OF that]
    using thr by simp
  have "tab B (n_rec c) (spec_v_next c ?x ?st) = tab B (n_rec c) (\<lambda>i j. 0)"
    by (rule tab_cong) (rule v0)
  then have tv: "tab B (n_rec c) (spec_v_next c ?x ?st) = tf_zeros (B, n_rec c)"
    by (simp only: tf_zeros_tab)
  have "tab B (n_rec c) (spec_z_next c ?x ?st) = tab B (n_rec c) (\<lambda>i j. 0)"
    by (rule tab_cong) (rule z0)
  then have tz: "tab B (n_rec c) (spec_z_next c ?x ?st) = tf_zeros (B, n_rec c)"
    by (simp only: tf_zeros_tab)
  have "LightLIF_call c ?x ?st =
     ([tab B (n_rec c) (spec_z_next c ?x ?st), tab B (n_rec c) (spec_v_next c ?x ?st)],
      \<lparr>v = tab B (n_rec c) (spec_v_next c ?x ?st), z = tab B (n_rec c) (spec_z_next c ?x ?st)\<rparr>)"
    using ok by (rule LightLIF_call_tab) (simp_all add: sv sz mat_shape_zeros)
  then show ?thesis
    unfolding tv tz by (simp add: zero_state_None)
qed

lemma zero_run:
  assumes ok: "cell_ok c" and thr: "thr c \<noteq> 0"
  shows "run_cell c (replicate T (tf_zeros (B, n_in c))) (zero_state c B None)
      = (replicate T [tf_zeros (B, n_rec c), tf_zeros (B, n_rec c)], zero_state c B None)"
  by (induction T) (simp_all add: zero_step [OF ok thr])

text \<open>
  C2. For a valid configuration (positive \<open>tau\<close>, \<open>dt\<close> and threshold, input width
  positive, weights of the configured shapes), every batch size \<open>B\<close> and every number of
  steps \<open>T\<close>: one step from the all-zero state on an all-zero input returns zero spikes,
  zero voltages and the all-zero state again, and so does every step of a run of \<open>T\<close>
  steps on all-zero inputs.
\<close>

theorem resting_state_fixed_point:
  assumes "0 < tau0" and "0 < dt0" and "0 < thr0" and "0 < nin"
    and "mat_shape W_in nin nrec" and "mat_shape W_rec nrec nrec"
  shows "LightLIF_call (LightLIF_init nin nrec tau0 thr0 dt0 d stop W_in W_rec) (tf_zeros (B, nin))
           (zero_state (LightLIF_init nin nrec tau0 thr0 dt0 d stop W_in W_rec) B None)
         = ([tf_zeros (B, nrec), tf_zeros (B, nrec)],
            zero_state (LightLIF_init nin nrec tau0 thr0 dt0 d stop W_in W_rec) B None)
   \<and> run_cell (LightLIF_init nin nrec tau0 thr0 dt0 d stop W_in W_rec) (replicate T (tf_zeros (B, nin)))
           (zero_state (LightLIF_init nin nrec tau0 thr0 dt0 d stop W_in W_rec) B None)
         = (replicate T [tf_zeros (B, nrec), tf_zeros (B, nrec)],
            zero_state (LightLIF_init nin nrec tau0 thr0 dt0 d stop W_in W_rec) B None)
   \<and> zero_state (LightLIF_init nin nrec tau0 thr0 dt0 d stop W_in W_rec) B None
         = \<lparr>v = replicate B (replicate nrec 0), z = replicate B (replicate nrec 0)\<rparr>"
proof -
  let ?c = "LightLIF_init nin nrec tau0 thr0 dt0 d stop W_in W_rec"
  have ok: "cell_ok ?c"
    using assms(4,5,6) by (rule cell_ok_init)
  have thr: "thr ?c \<noteq> 0"
    using assms(3) by (simp add: LightLIF_init_def)
  have n: "n_in ?c = nin" "n_rec ?c = nrec"
    by (simp_all add: LightLIF_init_def)
  show ?thesis
    using zero_step [OF ok thr, of B] zero_run [OF ok thr, of T B]
    by (simp add: n zero_state_None tf_zeros_def)
qed

theorem resting_state_fixed_point_witness:
  "(0 :: real) < 20 \<and> (0 :: real) < 1 \<and> (0 :: real) < 615 / 1000 \<and> (0 :: nat) < 2
   \<and> mat_shape [[1, 2, 3], [4, 5, 6 :: real]] 2 3
   \<and> mat_shape [[1, 2, 3], [4, 5, 6], [7, 8, 9 :: real]] 3 3
   \<and> run_cell (LightLIF_init 2 3 20 (615 / 1000) 1 (3 / 10) False
                 [[1, 2, 3], [4, 5, 6]] [[1, 2, 3], [4, 5, 6], [7, 8, 9]])
         [[[0, 0]], [[0, 0]]] \<lparr>v = [[0, 0, 0]], z = [[0, 0, 0]]\<rparr>
       = ([[[[0, 0, 0]], [[0, 0, 0]]], [[[0, 0, 0]], [[0, 0, 0]]]], \<lparr>v = [[0, 0, 0]], z = [[0, 0, 0]]\<rparr>)"
proof -
  have h: "(0 :: real) < 20" "(0 :: real) < 1" "(0 :: real) < 615 / 1000" "(0 :: nat) < 2"
    "mat_shape [[1, 2, 3], [4, 5, 6 :: real]] 2 3"
    "mat_shape [[1, 2, 3], [4, 5, 6], [7, 8, 9 :: real]] 3 3"
    by (simp_all add: mat_shape_def)
  have r: "run_cell (LightLIF_init 2 3 20 (615 / 1000) 1 (3 / 10) False
                 [[1, 2, 3], [4, 5, 6]] [[1, 2, 3], [4, 5, 6], [7, 8, 9]])
         [[[0, 0]], [[0, 0]]] \<lparr>v = [[0, 0, 0]], z = [[0, 0, 0]]\<rparr>
       = ([[[[0, 0, 0]], [[0, 0, 0]]], [[[0, 0, 0]], [[0, 0, 0]]]], \<lparr>v = [[0, 0, 0]], z = [[0, 0, 0]]\<rparr>)"
  proof -
    note T = resting_state_fixed_point [OF h, of "3 / 10" False 1 2]
    have ins: "replicate 2 (tf_zeros (1, 2)) = [[[0, 0]], [[0, 0]]]"
      by (simp add: tf_zeros_def eval_nat_numeral)
    have outs: "replicate 2 [tf_zeros (1, 3), tf_zeros (1, 3)]
        = [[[[0, 0, 0]], [[0, 0, 0]]], [[[0, 0, 0]], [[0, 0, 0]]]]"
      by (simp add: tf_zeros_def eval_nat_numeral)
    have reps: "replicate 1 (replicate 3 (0 :: real)) = [[0, 0, 0]]"
      by (simp add: eval_nat_numeral)
    note zs = T [THEN conjunct2, THEN conjunct2, unfolded reps]
    show ?thesis
      using T [THEN conjunct2, THEN conjunct1, unfolded ins outs zs] .
  qed
  show ?thesis
    using h r by simp
qed

text \<open>
  C3. On an input of shape batch x \<open>n_in\<close> and a state of shape batch x \<open>n_rec\<close>, the
  call returns \<open>([z_next, v_next], (v_next, z_next))\<close> with, entry by entry,
  \<open>v_next = decay * v + (1 - decay) * i_t - z * thr * dt\<close>, where \<open>decay = exp (- dt / tau)\<close>
  and \<open>i_t\<close> is the input times the input weights plus the previous spikes times the
  recurrent weights with their diagonal zeroed, and
  \<open>z_next = (if (v_next - thr) / thr > 0 then 1 else 0) / dt\<close>.
\<close>

theorem LightLIF_call_is_spec_step:
  assumes "0 < tau0" and "0 < dt0" and "thr0 \<noteq> 0" and "0 < nin"
    and "mat_shape W_in nin nrec" and "mat_shape W_rec nrec nrec"
    and "mat_shape inputs B nin" and "mat_shape (v st) B nrec" and "mat_shape (z st) B nrec"
  shows "LightLIF_call (LightLIF_init nin nrec tau0 thr0 dt0 d stop W_in W_rec) inputs st
       = (case spec_step (LightLIF_init nin nrec tau0 thr0 dt0 d stop W_in W_rec) inputs st of
            (z_next, v_next, next_state) \<Rightarrow> ([z_next, v_next], next_state))
   \<and> decay (LightLIF_init nin nrec tau0 thr0 dt0 d stop W_in W_rec) = exp (- dt0 / tau0)
   \<and> (\<forall>b<B. \<forall>j<nrec.
        v (snd (LightLIF_call (LightLIF_init nin nrec tau0 thr0 dt0 d stop W_in W_rec) inputs st)) ! b ! j
          = exp (- dt0 / tau0) * v st ! b ! j
            + (1 - exp (- dt0 / tau0))
              * ((\<Sum>k<nin. inputs ! b ! k * W_in ! k ! j)
                 + (\<Sum>k<nrec. z st ! b ! k * (if k = j then 0 else W_rec ! k ! j)))
            - z st ! b ! j * thr0 * dt0
        \<and> z (snd (LightLIF_call (LightLIF_init nin nrec tau0 thr0 dt0 d stop W_in W_rec) inputs st)) ! b ! j
          = (if (v (snd (LightLIF_call (LightLIF_init nin nrec tau0 thr0 dt0 d stop W_in W_rec) inputs st)) ! b ! j
                  - thr0) / thr0 > 0 then 1 else 0) / dt0)"
proof -
  let ?c = "LightLIF_init nin nrec tau0 thr0 dt0 d stop W_in W_rec"
  have ok: "cell_ok ?c"
    using assms(4,5,6) by (rule cell_ok_init)
  have f: "n_in ?c = nin" "n_rec ?c = nrec" "thr ?c = thr0" "dt ?c = dt0" "tau ?c = tau0"
    "w_in_var ?c = W_in" "w_rec_var ?c = W_rec" "decay ?c = exp (- dt0 / tau0)"
    by (simp_all add: LightLIF_init_def)
  have lb: "length inputs = B"
    using assms(7) by (simp add: mat_shape_def)
  have call: "LightLIF_call ?c inputs st =
     ([tab B nrec (spec_z_next ?c inputs st), tab B nrec (spec_v_next ?c inputs st)],
      \<lparr>v = tab B nrec (spec_v_next ?c inputs st), z = tab B nrec (spec_z_next ?c inputs st)\<rparr>)"
    using LightLIF_call_tab [OF ok, of inputs B st] assms(7,8,9) by (simp add: f)
  have a: "LightLIF_call ?c inputs st
       = (case spec_step ?c inputs st of (z_next, v_next, next_state) \<Rightarrow> ([z_next, v_next], next_state))"
    unfolding call by (simp add: spec_step_def Let_def lb f)
  have b: "v (snd (LightLIF_call ?c inputs st)) ! b ! j
          = exp (- dt0 / tau0) * v st ! b ! j
            + (1 - exp (- dt0 / tau0))
              * ((\<Sum>k<nin. inputs ! b ! k * W_in ! k ! j)
                 + (\<Sum>k<nrec. z st ! b ! k * (if k = j then 0 else W_rec ! k ! j)))
            - z st ! b ! j * thr0 * dt0
        \<and> z (snd (LightLIF_call ?c inputs st)) ! b ! j
          = (if (v (snd (LightLIF_call ?c inputs st)) ! b ! j - thr0) / thr0 > 0 then 1 else 0) / dt0"
    if "b < B" "j < nrec" for b j
    unfolding call spec_z_next_def spec_v_next_def spec_i_t_def f
    using that by (simp add: tab_nth)
  show ?thesis
    using a b f(8) by blast
qed

theorem LightLIF_call_is_spec_step_witness:
  "(0 :: real) < 20 \<and> (0 :: real) < 1 \<and> (615 / 1000 :: real) \<noteq> 0 \<and> (0 :: nat) < 2
   \<and> mat_shape [[1 / 2, 0, - 1], [1 / 2, 0, - 1 :: real]] 2 3
   \<and> mat_shape [[5, 1 / 2, 0], [0, 5, 0], [0, 0, 5 :: real]] 3 3
   \<and> mat_shape [[1, 1 :: real]] 1 2
   \<and> LightLIF_call (LightLIF_init 2 3 20 (615 / 1000) 1 (3 / 10) False
                 [[1 / 2, 0, - 1], [1 / 2, 0, - 1]] [[5, 1 / 2, 0], [0, 5, 0], [0, 0, 5]])
         [[1, 1]] \<lparr>v = [[1, 0, - 1]], z = [[1, 0, 0]]\<rparr>
       = ([[[0, 0, 0]], [[385 / 1000, (1 - exp (- 1 / 20)) / 2, exp (- 1 / 20) - 2]]],
          \<lparr>v = [[385 / 1000, (1 - exp (- 1 / 20)) / 2, exp (- 1 / 20) - 2]], z = [[0, 0, 0]]\<rparr>)"
proof -
  let ?c = "LightLIF_init 2 3 20 (615 / 1000) 1 (3 / 10) False
                 [[1 / 2, 0, - 1], [1 / 2, 0, - 1]] [[5, 1 / 2, 0], [0, 5, 0], [0, 0, 5]]"
  let ?st = "\<lparr>v = [[1, 0, - 1 :: real]], z = [[1, 0, 0 :: real]]\<rparr>"
  have h: "(0 :: real) < 20" "(0 :: real) < 1" "(615 / 1000 :: real) \<noteq> 0" "(0 :: nat) < 2"
    "mat_shape [[1 / 2, 0, - 1], [1 / 2, 0, - 1 :: real]] 2 3"
    "mat_shape [[5, 1 / 2, 0], [0, 5, 0], [0, 0, 5 :: real]] 3 3"
    "mat_shape [[1, 1 :: real]] 1 2"
    by (simp_all add: mat_shape_def)
  have hs: "mat_shape (v ?st) 1 3" "mat_shape (z ?st) 1 3"
    by (simp_all add: mat_shape_def)
  define e :: real where "e = exp (- (1 / 20))"
  have e: "e < 1" "0 < e"
    by (simp_all add: e_def)
  have sp: "spec_step ?c [[1, 1]] ?st
      = ([[0, 0, 0]], [[385 / 1000, (1 - exp (- 1 / 20)) / 2, exp (- 1 / 20) - 2]],
          \<lparr>v = [[385 / 1000, (1 - exp (- 1 / 20)) / 2, exp (- 1 / 20) - 2]], z = [[0, 0, 0]]\<rparr>)"
    using e
    by (simp add: spec_step_def spec_z_next_def spec_v_next_def spec_i_t_def tab_def
        LightLIF_init_def eval_nat_numeral e_def [symmetric] Let_def field_simps)
  have r: "LightLIF_call ?c [[1, 1]] ?st
       = ([[[0, 0, 0]], [[385 / 1000, (1 - exp (- 1 / 20)) / 2, exp (- 1 / 20) - 2]]],
          \<lparr>v = [[385 / 1000, (1 - exp (- 1 / 20)) / 2, exp (- 1 / 20) - 2]], z = [[0, 0, 0]]\<rparr>)"
    using LightLIF_call_is_spec_step [OF h hs, of "3 / 10" False, THEN conjunct1]
    unfolding sp by simp
  show ?thesis
    using h r by simp
qed

text \<open>
  C8. Whatever matrix \<open>W\<close> of shape \<open>n_rec\<close> x \<open>n_rec\<close> the recurrent variable holds, the
  matrix the step reads has a zero diagonal and the entries of \<open>W\<close> elsewhere; and the
  step returns the same for two stored matrices that differ on the diagonal only.
\<close>

theorem recurrent_weights_diagonal_zero:
  assumes "mat_shape W nrec nrec"
  shows "(\<forall>i<nrec. w_rec_val ((LightLIF_init nin nrec tau0 thr0 dt0 d stop W_in W_rec)\<lparr>w_rec_var := W\<rparr>) ! i ! i = 0)
   \<and> (\<forall>i<nrec. \<forall>j<nrec. i \<noteq> j \<longrightarrow>
         w_rec_val ((LightLIF_init nin nrec tau0 thr0 dt0 d stop W_in W_rec)\<lparr>w_rec_var := W\<rparr>) ! i ! j
           = W ! i ! j)
   \<and> (\<forall>W'. mat_shape W' nrec nrec \<and> (\<forall>i<nrec. \<forall>j<nrec. i \<noteq> j \<longrightarrow> W' ! i ! j = W ! i ! j) \<longrightarrow>
         LightLIF_call ((LightLIF_init nin nrec tau0 thr0 dt0 d stop W_in W_rec)\<lparr>w_rec_var := W'\<rparr>) inputs st
           = LightLIF_call ((LightLIF_init nin nrec tau0 thr0 dt0 d stop W_in W_rec)\<lparr>w_rec_var := W\<rparr>) inputs st)"
proof -
  let ?c = "LightLIF_init nin nrec tau0 thr0 dt0 d stop W_in W_rec"
  have val: "w_rec_val (?c\<lparr>w_rec_var := X\<rparr>) = tab nrec nrec (\<lambda>i j. if i = j then 0 else X ! i ! j)"
    if "mat_shape X nrec nrec" for X
  proof -
    have wv: "w_rec_var (?c\<lparr>w_rec_var := X\<rparr>) = X"
      by simp
    have mask: "recurrent_disconnect_mask (?c\<lparr>w_rec_var := X\<rparr>) = np_diag (np_ones nrec)"
      by (simp add: LightLIF_init_def)
    show ?thesis
      using w_rec_val_tab [of "?c\<lparr>w_rec_var := X\<rparr>" nrec, unfolded wv, OF that mask] .
  qed
  have a: "w_rec_val (?c\<lparr>w_rec_var := W\<rparr>) ! i ! i = 0" if "i < nrec" for i
    using that by (simp add: val [OF assms] tab_nth)
  have b: "w_rec_val (?c\<lparr>w_rec_var := W\<rparr>) ! i ! j = W ! i ! j"
    if "i < nrec" "j < nrec" "i \<noteq> j" for i j
    using that by (simp add: val [OF assms] tab_nth)
  have c: "LightLIF_call (?c\<lparr>w_rec_var := W'\<rparr>) inputs st = LightLIF_call (?c\<lparr>w_rec_var := W\<rparr>) inputs st"
    if sh: "mat_shape W' nrec nrec" and off: "\<forall>i<nrec. \<forall>j<nrec. i \<noteq> j \<longrightarrow> W' ! i ! j = W ! i ! j" for W'
  proof -
    have "w_rec_val (?c\<lparr>w_rec_var := W'\<rparr>) = w_rec_val (?c\<lparr>w_rec_var := W\<rparr>)"
      unfolding val [OF sh] val [OF assms]
      by (rule tab_cong) (use off in auto)
    then show ?thesis
      by (simp add: LightLIF_call_def w_in_val_def)
  qed
  show ?thesis
    using a b c by blast
qed

theorem recurrent_weights_diagonal_zero_witness:
  "mat_shape [[7, 1], [2, 9 :: real]] 2 2
   \<and> w_rec_val ((LightLIF_init 1 2 20 (615 / 1000) 1 (3 / 10) False [[1, 1]] [[0, 3], [4, 0]])
        \<lparr>w_rec_var := [[7, 1], [2, 9]]\<rparr>) = [[0, 1], [2, 0]]
   \<and> LightLIF_call ((LightLIF_init 1 2 20 (615 / 1000) 1 (3 / 10) False [[1, 1]] [[0, 3], [4, 0]])
        \<lparr>w_rec_var := [[- 8, 1], [2, 11]]\<rparr>) [[1]] \<lparr>v = [[0, 0]], z = [[1, 1]]\<rparr>
     = LightLIF_call ((LightLIF_init 1 2 20 (615 / 1000) 1 (3 / 10) False [[1, 1]] [[0, 3], [4, 0]])
        \<lparr>w_rec_var := [[7, 1], [2, 9]]\<rparr>) [[1]] \<lparr>v = [[0, 0]], z = [[1, 1]]\<rparr>"
proof -
  let ?c = "LightLIF_init 1 2 20 (615 / 1000) 1 (3 / 10) False [[1, 1]] [[0, 3], [4, 0]]"
  have h: "mat_shape [[7, 1], [2, 9 :: real]] 2 2"
    by (simp add: mat_shape_def)
  note T = recurrent_weights_diagonal_zero [OF h, of 1 20 "615 / 1000" 1 "3 / 10" False "[[1, 1]]" "[[0, 3], [4, 0]]"]
  have sh: "mat_shape (w_rec_val (?c\<lparr>w_rec_var := [[7, 1], [2, 9]]\<rparr>)) 2 2"
    by (simp add: w_rec_val_def tf_where_def tf_zeros_like_def LightLIF_init_def mat_shape_def
        np_diag_def np_ones_def eval_nat_numeral)
  have d0: "w_rec_val (?c\<lparr>w_rec_var := [[7, 1], [2, 9]]\<rparr>) ! 0 ! 0 = 0"
    and d1: "w_rec_val (?c\<lparr>w_rec_var := [[7, 1], [2, 9]]\<rparr>) ! 1 ! 1 = 0"
    using T [THEN conjunct1] by simp_all
  have o01: "w_rec_val (?c\<lparr>w_rec_var := [[7, 1], [2, 9]]\<rparr>) ! 0 ! 1 = 1"
    and o10: "w_rec_val (?c\<lparr>w_rec_var := [[7, 1], [2, 9]]\<rparr>) ! 1 ! 0 = 2"
    using T [THEN conjunct2, THEN conjunct1] by simp_all
  have "w_rec_val (?c\<lparr>w_rec_var := [[7, 1], [2, 9]]\<rparr>)
      = tab 2 2 (\<lambda>i j. w_rec_val (?c\<lparr>w_rec_var := [[7, 1], [2, 9]]\<rparr>) ! i ! j)"
    using sh by (rule mat_shape_tab_eq)
  also have "\<dots> = [[0, 1], [2, 0]]"
    using d0 d1 o01 o10 by (simp add: tab_def eval_nat_numeral)
  finally have a: "w_rec_val (?c\<lparr>w_rec_var := [[7, 1], [2, 9]]\<rparr>) = [[0, 1], [2, 0]]" .
  have pre: "mat_shape [[- 8, 1], [2, 11 :: real]] 2 2
      \<and> (\<forall>i<2. \<forall>j<2. i \<noteq> j \<longrightarrow> [[- 8, 1], [2, 11 :: real]] ! i ! j = [[7, 1], [2, 9]] ! i ! j)"
    by (simp add: mat_shape_def less_Suc_eq numeral_2_eq_2)
  have b: "LightLIF_call (?c\<lparr>w_rec_var := [[- 8, 1], [2, 11]]\<rparr>) [[1]] \<lparr>v = [[0, 0]], z = [[1, 1]]\<rparr>
     = LightLIF_call (?c\<lparr>w_rec_var := [[7, 1], [2, 9]]\<rparr>) [[1]] \<lparr>v = [[0, 0]], z = [[1, 1]]\<rparr>"
    using T [THEN conjunct2, THEN conjunct2, THEN spec, THEN mp, OF pre] .
  show ?thesis
    by (intro conjI h a b)
qed

section \<open>The sequence filters along the time axis\<close>

lemma wf_tensor3_nth:
  "wf_tensor3 t \<Longrightarrow> shape t = (d0, d1, d2) \<Longrightarrow> i < d0 \<Longrightarrow> mat_shape (vals t ! i) d1 d2"
  by (simp add: wf_tensor3_def)

lemma wf_tensor3_row:
  "wf_tensor3 t \<Longrightarrow> shape t = (d0, d1, d2) \<Longrightarrow> i < d0 \<Longrightarrow> j < d1 \<Longrightarrow> length (vals t ! i ! j) = d2"
  using wf_tensor3_nth [of t d0 d1 d2 i] by (simp add: mat_shape_def)

lemma tf_transpose_vals:
  "shape t = (d0, d1, d2) \<Longrightarrow>
   vals (tf_transpose t) = map (\<lambda>j. map (\<lambda>i. vals t ! i ! j) [0..<d0]) [0..<d1]"
  by (simp add: tf_transpose_def)

lemma tf_transpose_shape: "shape t = (d0, d1, d2) \<Longrightarrow> shape (tf_transpose t) = (d1, d0, d2)"
  by (simp add: tf_transpose_def)

lemma tf_transpose_dtype: "dtype (tf_transpose t) = dtype t"
  by (simp add: tf_transpose_def split: prod.splits)

lemma tf_transpose_wf:
  assumes "wf_tensor3 t" "shape t = (d0, d1, d2)"
  shows "wf_tensor3 (tf_transpose t)"
  unfolding wf_tensor3_def tf_transpose_shape [OF assms(2)] tf_transpose_vals [OF assms(2)]
  using wf_tensor3_row [OF assms] by (auto simp: mat_shape_def)

text \<open>The scan.\<close>

lemma length_tf_scan: "length (tf_scan f xs a) = length xs"
  by (induction xs arbitrary: a) (simp_all add: Let_def)

lemma tf_scan_0: "xs \<noteq> [] \<Longrightarrow> tf_scan f xs a ! 0 = f a (xs ! 0)"
  by (cases xs) (simp_all add: Let_def)

lemma tf_scan_Suc:
  "Suc k < length xs \<Longrightarrow> tf_scan f xs a ! Suc k = f (tf_scan f xs a ! k) (xs ! Suc k)"
proof (induction xs arbitrary: a k)
  case Nil
  then show ?case by simp
next
  case (Cons x xs)
  show ?case
  proof (cases k)
    case 0
    then show ?thesis
      using Cons.prems by (cases xs) (simp_all add: Let_def)
  next
    case (Suc m)
    then show ?thesis
      using Cons.prems Cons.IH [of m "f a x"] by (simp add: Let_def)
  qed
qed

lemma tf_scan_shape:
  "(\<And>a x. P a \<Longrightarrow> x \<in> set xs \<Longrightarrow> P (f a x)) \<Longrightarrow> P a \<Longrightarrow> \<forall>y\<in>set (tf_scan f xs a). P y"
proof (induction xs arbitrary: a)
  case Nil
  then show ?case by simp
next
  case (Cons x xs)
  have px: "P (f a x)"
    using Cons.prems by simp
  have "\<forall>y\<in>set (tf_scan f xs (f a x)). P y"
    using Cons.prems(1) px by (intro Cons.IH) simp_all
  then show ?case
    using px by (simp add: Let_def)
qed

text \<open>One step of the filter on two matrices of one shape.\<close>

lemma filter_step_tab:
  assumes "mat_shape a r c" "mat_shape x r c"
  shows "t_add_t (t_mul_s a d) (s_mul_t (1 - d) x) = tab r c (\<lambda>i j. a ! i ! j * d + (1 - d) * x ! i ! j)"
proof -
  have a: "a = tab r c (\<lambda>i j. a ! i ! j)" using assms(1) by (rule mat_shape_tab_eq)
  have x: "x = tab r c (\<lambda>i j. x ! i ! j)" using assms(2) by (rule mat_shape_tab_eq)
  have "t_add_t (t_mul_s (tab r c (\<lambda>i j. a ! i ! j)) d) (s_mul_t (1 - d) (tab r c (\<lambda>i j. x ! i ! j)))
      = tab r c (\<lambda>i j. a ! i ! j * d + (1 - d) * x ! i ! j)"
    by (simp add: t_add_t_def t_mul_s_def s_mul_t_def tab_map tab_map2)
  then show ?thesis using a x by simp
qed

text \<open>The time-major slices of a well-formed tensor.\<close>

lemma time_major_slices:
  assumes "wf_tensor3 t" "shape t = (B, T, N)"
  shows "length (vals (tf_transpose t)) = T"
    and "k < T \<Longrightarrow> mat_shape (vals (tf_transpose t) ! k) B N"
    and "k < T \<Longrightarrow> b < B \<Longrightarrow> vals (tf_transpose t) ! k ! b = vals t ! b ! k"
proof -
  show "length (vals (tf_transpose t)) = T"
    by (simp add: tf_transpose_vals [OF assms(2)])
  show "mat_shape (vals (tf_transpose t) ! k) B N" if "k < T"
    using that wf_tensor3_row [OF assms]
    by (auto simp: tf_transpose_vals [OF assms(2)] mat_shape_def)
  show "vals (tf_transpose t) ! k ! b = vals t ! b ! k" if "k < T" "b < B"
    using that by (simp add: tf_transpose_vals [OF assms(2)])
qed

lemma exp_convolve_result:
  assumes wf: "wf_tensor3 t" and sh: "shape t = (B, T, N)" and fl: "float_dtype t" and T: "0 < T"
  shows "exp_convolve t d =
     Inr (tf_transpose ((tf_transpose t)
            \<lparr>vals := tf_scan (filter_fn d) (vals (tf_transpose t)) (tf_zeros (B, N))\<rparr>))"
proof -
  let ?xs = "vals (tf_transpose t)"
  have len: "length ?xs = T"
    using wf sh by (rule time_major_slices)
  then obtain first rest where fr: "?xs = first # rest"
    using T by (cases ?xs) auto
  have "first = ?xs ! 0"
    by (simp add: fr)
  then have "mat_shape first B N"
    using time_major_slices(2) [OF wf sh, of 0] T by simp
  then have init: "tf_zeros_like first = tf_zeros (B, N)"
    by (simp add: tf_zeros_like_tab tf_zeros_tab)
  have dt: "dtype t \<in> set [Float16, Float32, Float64]"
    using fl by (simp add: float_dtype_def)
  have fn: "(\<lambda>a x. t_add_t (t_mul_s a d) (s_mul_t (1 - d) x)) = filter_fn d"
    by (intro ext) (simp add: filter_fn_def)
  show ?thesis
    unfolding exp_convolve_def Let_def fn
    using dt by (simp add: fr init)
qed

lemma exp_convolve_filtered:
  fixes d :: real
  assumes wf: "wf_tensor3 t" and sh: "shape t = (B, T, N)"
  defines "ys \<equiv> tf_scan (filter_fn d) (vals (tf_transpose t)) (tf_zeros (B, N))"
  shows "length ys = T"
    and "k < T \<Longrightarrow> mat_shape (ys ! k) B N"
    and "0 < T \<Longrightarrow> b < B \<Longrightarrow> n < N \<Longrightarrow> ys ! 0 ! b ! n = (1 - d) * vals t ! b ! 0 ! n"
    and "Suc k < T \<Longrightarrow> b < B \<Longrightarrow> n < N \<Longrightarrow>
         ys ! Suc k ! b ! n = d * ys ! k ! b ! n + (1 - d) * vals t ! b ! Suc k ! n"
proof -
  let ?xs = "vals (tf_transpose t)"
  have lx: "length ?xs = T"
    using wf sh by (rule time_major_slices)
  show ly: "length ys = T"
    by (simp add: ys_def length_tf_scan lx)
  have xsh: "mat_shape x B N" if xin: "x \<in> set ?xs" for x
  proof -
    obtain k where "k < length ?xs" "x = ?xs ! k"
      using xin by (metis in_set_conv_nth)
    then show ?thesis
      using time_major_slices(2) [OF wf sh, of k] lx by simp
  qed
  have all: "\<forall>y\<in>set ys. mat_shape y B N"
    unfolding ys_def
  proof (rule tf_scan_shape)
    show "mat_shape (tf_zeros (B, N)) B N"
      by (rule mat_shape_zeros)
    show "mat_shape (filter_fn d a x) B N" if "mat_shape a B N" "x \<in> set ?xs" for a x
      unfolding filter_fn_def filter_step_tab [OF that(1) xsh [OF that(2)]]
      by (rule mat_shape_tab)
  qed
  show ysh: "mat_shape (ys ! k) B N" if "k < T" for k
    using all that ly by simp
  show "ys ! 0 ! b ! n = (1 - d) * vals t ! b ! 0 ! n" if "0 < T" "b < B" "n < N"
  proof -
    have ne: "?xs \<noteq> []" using lx that(1) by auto
    have "ys ! 0 = filter_fn d (tf_zeros (B, N)) (?xs ! 0)"
      unfolding ys_def using ne by (rule tf_scan_0)
    also have "\<dots> = tab B N (\<lambda>i j. tf_zeros (B, N) ! i ! j * d + (1 - d) * ?xs ! 0 ! i ! j)"
      unfolding filter_fn_def
      using mat_shape_zeros time_major_slices(2) [OF wf sh that(1)] by (rule filter_step_tab)
    finally show ?thesis
      using that by (simp add: tab_nth tf_zeros_tab time_major_slices(3) [OF wf sh])
  qed
  show "ys ! Suc k ! b ! n = d * ys ! k ! b ! n + (1 - d) * vals t ! b ! Suc k ! n"
    if "Suc k < T" "b < B" "n < N"
  proof -
    have "ys ! Suc k = filter_fn d (ys ! k) (?xs ! Suc k)"
      unfolding ys_def using that(1) lx by (intro tf_scan_Suc) simp
    also have "\<dots> = tab B N (\<lambda>i j. ys ! k ! i ! j * d + (1 - d) * ?xs ! Suc k ! i ! j)"
      unfolding filter_fn_def
      using ysh [of k] time_major_slices(2) [OF wf sh that(1)] that(1)
      by (intro filter_step_tab) simp_all
    finally show ?thesis
      using that by (simp add: tab_nth time_major_slices(3) [OF wf sh])
  qed
qed

text \<open>
  C6. On a well-formed tensor of floats of shape \<open>(B, T, N)\<close> with at least one time
  step, and for every decay, the exponential filter returns a tensor of the same shape
  with, at every trial \<open>b\<close> and neuron \<open>n\<close>,
  \<open>filtered[0] = (1 - decay) * raw[0]\<close> and
  \<open>filtered[k] = decay * filtered[k - 1] + (1 - decay) * raw[k]\<close> for \<open>0 < k < T\<close>; on a
  sequence of one step whose entries are all \<open>c\<close> the output is \<open>(1 - decay) * c\<close>.
\<close>

theorem exp_convolve_recurrence:
  assumes wf: "wf_tensor3 t" and sh: "shape t = (B, T, N)" and fl: "float_dtype t" and T: "0 < T"
  shows "\<exists>r. exp_convolve t d = Inr r
     \<and> shape r = shape t \<and> dtype r = dtype t \<and> wf_tensor3 r
     \<and> (\<forall>b<B. \<forall>n<N.
           vals r ! b ! 0 ! n = (1 - d) * vals t ! b ! 0 ! n
           \<and> (\<forall>k. 0 < k \<and> k < T \<longrightarrow>
                 vals r ! b ! k ! n = d * vals r ! b ! (k - 1) ! n + (1 - d) * vals t ! b ! k ! n))
     \<and> (\<forall>c. T = 1 \<and> (\<forall>b<B. \<forall>n<N. vals t ! b ! 0 ! n = c) \<longrightarrow>
           (\<forall>b<B. \<forall>n<N. vals r ! b ! 0 ! n = (1 - d) * c))"
proof -
  define ys where "ys = tf_scan (filter_fn d) (vals (tf_transpose t)) (tf_zeros (B, N))"
  define tm where "tm = (tf_transpose t)\<lparr>vals := ys\<rparr>"
  define r where "r = tf_transpose tm"
  note F = exp_convolve_filtered [OF wf sh, where d = d, folded ys_def]
  have res: "exp_convolve t d = Inr r"
    unfolding r_def tm_def ys_def using wf sh fl T by (rule exp_convolve_result)
  have tsh: "shape tm = (T, B, N)"
    by (simp add: tm_def tf_transpose_shape [OF sh])
  have twf: "wf_tensor3 tm"
    unfolding wf_tensor3_def tsh using F(1) F(2)
    by (auto simp: tm_def in_set_conv_nth)
  have rsh: "shape r = shape t"
    unfolding r_def sh using tsh by (rule tf_transpose_shape)
  have rdt: "dtype r = dtype t"
    by (simp add: r_def tm_def tf_transpose_dtype)
  have rwf: "wf_tensor3 r"
    unfolding r_def using twf tsh by (rule tf_transpose_wf)
  have ent: "vals r ! b ! k = ys ! k ! b" if "b < B" "k < T" for b k
    unfolding r_def using time_major_slices(3) [OF twf tsh that] by (simp add: tm_def)
  have first: "vals r ! b ! 0 ! n = (1 - d) * vals t ! b ! 0 ! n" if "b < B" "n < N" for b n
    using ent [OF that(1) T] F(3) [OF T that] by simp
  have step: "vals r ! b ! k ! n = d * vals r ! b ! (k - 1) ! n + (1 - d) * vals t ! b ! k ! n"
    if bB: "b < B" and nN: "n < N" and k0: "0 < k" and kT: "k < T" for b n k
  proof -
    obtain m where k: "k = Suc m"
      using k0 by (cases k) auto
    have m: "m < T" "Suc m < T"
      using kT k by simp_all
    have "vals r ! b ! Suc m ! n = d * vals r ! b ! m ! n + (1 - d) * vals t ! b ! Suc m ! n"
      unfolding ent [OF bB m(1)] ent [OF bB m(2)]
      using m(2) bB nN by (rule F(4))
    then show ?thesis
      by (simp add: k)
  qed
  have const: "vals r ! b ! 0 ! n = (1 - d) * c"
    if "\<forall>b<B. \<forall>n<N. vals t ! b ! 0 ! n = c" "b < B" "n < N" for c b n
    using first [OF that(2,3)] that by simp
  have rec: "\<forall>b<B. \<forall>n<N.
           vals r ! b ! 0 ! n = (1 - d) * vals t ! b ! 0 ! n
           \<and> (\<forall>k. 0 < k \<and> k < T \<longrightarrow>
                 vals r ! b ! k ! n = d * vals r ! b ! (k - 1) ! n + (1 - d) * vals t ! b ! k ! n)"
    using first step by simp
  have one: "\<forall>c. T = 1 \<and> (\<forall>b<B. \<forall>n<N. vals t ! b ! 0 ! n = c) \<longrightarrow>
           (\<forall>b<B. \<forall>n<N. vals r ! b ! 0 ! n = (1 - d) * c)"
    using const by simp
  show ?thesis
    by (intro exI [of _ r] conjI res rsh rdt rwf rec one)
qed

theorem exp_convolve_recurrence_witness:
  "wf_tensor3 \<lparr>dtype = Float32, shape = (1, 3, 2), vals = [[[1, 2], [3, 4], [5, 6]]]\<rparr>
   \<and> float_dtype \<lparr>dtype = Float32, shape = (1, 3, 2), vals = [[[1, 2], [3, 4], [5, 6]]]\<rparr>
   \<and> (0 :: nat) < 3
   \<and> exp_convolve \<lparr>dtype = Float32, shape = (1, 3, 2), vals = [[[1, 2], [3, 4], [5, 6]]]\<rparr> (1 / 2)
       = Inr \<lparr>dtype = Float32, shape = (1, 3, 2), vals = [[[1 / 2, 1], [7 / 4, 5 / 2], [27 / 8, 17 / 4]]]\<rparr>
   \<and> 7 / 4 = (1 / 2) * (1 / 2) + (1 - 1 / 2) * (3 :: real)"
proof -
  let ?t = "\<lparr>dtype = Float32, shape = (1, 3, 2), vals = [[[1, 2], [3, 4], [5, 6 :: real]]]\<rparr>"
  have wf: "wf_tensor3 ?t"
    by (simp add: wf_tensor3_def mat_shape_def)
  have sh: "shape ?t = (1, 3, 2)"
    by simp
  have fl: "float_dtype ?t"
    by (simp add: float_dtype_def)
  have T: "(0 :: nat) < 3"
    by simp
  have ev: "exp_convolve ?t (1 / 2)
      = Inr \<lparr>dtype = Float32, shape = (1, 3, 2), vals = [[[1 / 2, 1], [7 / 4, 5 / 2], [27 / 8, 17 / 4]]]\<rparr>"
    by (simp add: exp_convolve_def tf_transpose_def tf_zeros_like_def t_add_t_def t_mul_s_def
        s_mul_t_def Let_def eval_nat_numeral)
  from exp_convolve_recurrence [OF wf sh fl T, where d = "1 / 2"]
  obtain r where all: "exp_convolve ?t (1 / 2) = Inr r
     \<and> shape r = shape ?t \<and> dtype r = dtype ?t \<and> wf_tensor3 r
     \<and> (\<forall>b<1. \<forall>n<2.
           vals r ! b ! 0 ! n = (1 - 1 / 2) * vals ?t ! b ! 0 ! n
           \<and> (\<forall>k. 0 < k \<and> k < 3 \<longrightarrow>
                 vals r ! b ! k ! n = 1 / 2 * vals r ! b ! (k - 1) ! n + (1 - 1 / 2) * vals ?t ! b ! k ! n))
     \<and> (\<forall>c. (3 :: nat) = 1 \<and> (\<forall>b<1. \<forall>n<2. vals ?t ! b ! 0 ! n = c) \<longrightarrow>
           (\<forall>b<1. \<forall>n<2. vals r ! b ! 0 ! n = (1 - 1 / 2) * c))" ..
  note r = all [THEN conjunct1]
  note rec = all [THEN conjunct2, THEN conjunct2, THEN conjunct2, THEN conjunct2, THEN conjunct1]
  have req: "r = \<lparr>dtype = Float32, shape = (1, 3, 2), vals = [[[1 / 2, 1], [7 / 4, 5 / 2], [27 / 8, 17 / 4]]]\<rparr>"
    using r ev by simp
  have "vals r ! 0 ! 1 ! 0 = (1 / 2) * vals r ! 0 ! (1 - 1) ! 0 + (1 - 1 / 2) * vals ?t ! 0 ! 1 ! 0"
    using rec [THEN spec, of 0, THEN mp, THEN spec, of 0, THEN mp, THEN conjunct2, THEN spec, of 1]
    by simp
  then have num: "7 / 4 = (1 / 2) * (1 / 2) + (1 - 1 / 2) * (3 :: real)"
    unfolding req by simp
  show ?thesis
    by (intro conjI wf fl T ev num)
qed

lemma shift_initializer_shape: "initializer_ok init B N \<Longrightarrow> mat_shape (shift_initializer init B N) B N"
  by (cases init) (simp_all add: shift_initializer_def initializer_ok_def mat_shape_zeros)

lemma shift_explicit:
  assumes wf: "wf_tensor3 t" and sh: "shape t = (B, T, N)" and fl: "float_dtype t" and T: "0 < T"
  shows "shift_by_one_time_step t init =
     Inr \<lparr>dtype = dtype t, shape = (B, T, N),
          vals = map (\<lambda>b. map (\<lambda>k. if k = 0 then shift_initializer init B N ! b
                                    else vals t ! b ! (k - 1)) [0..<T]) [0..<B]\<rparr>"
proof -
  let ?xs = "vals (tf_transpose t)"
  let ?i0 = "shift_initializer init B N"
  have len: "length ?xs = T"
    using wf sh by (rule time_major_slices)
  then obtain first rest where fr: "?xs = first # rest"
    using T by (cases ?xs) auto
  have "first = ?xs ! 0"
    by (simp add: fr)
  then have "mat_shape first B N"
    using time_major_slices(2) [OF wf sh, of 0] T by simp
  then have zl: "tf_zeros_like first = tf_zeros (B, N)"
    by (simp add: tf_zeros_like_tab tf_zeros_tab)
  have dt: "dtype t \<in> set [Float16, Float32, Float64]"
    using fl by (simp add: float_dtype_def)
  have ini: "(case init of None \<Rightarrow> (case ?xs of [] \<Rightarrow> Inl ValueError | first # _ \<Rightarrow> Inr (tf_zeros_like first))
                         | Some i \<Rightarrow> Inr i) = Inr ?i0"
    by (cases init) (simp_all add: fr zl shift_initializer_def)
  have lb: "length (butlast ?xs) = T - 1"
    by (simp add: len)
  have tsh: "shape (tf_transpose t) = (T, B, N)"
    using sh by (rule tf_transpose_shape)
  have sv: "Suc (length ?xs - Suc 0) = T"
    using T len by simp
  have run: "shift_by_one_time_step t init
      = Inr (tf_transpose ((tf_transpose t)\<lparr>shape := (T, B, N), vals := ?i0 # butlast ?xs\<rparr>))"
    unfolding shift_by_one_time_step_def Let_def ini
    using dt by (simp add: tsh sv)
  have ent: "(?i0 # butlast ?xs) ! k ! b = (if k = 0 then ?i0 ! b else vals t ! b ! (k - 1))"
    if kT: "k < T" and bB: "b < B" for k b
  proof (cases k)
    case 0
    then show ?thesis by simp
  next
    case (Suc m)
    have m: "m < T" "m < length (butlast ?xs)"
      using kT Suc lb by simp_all
    show ?thesis
      using Suc m time_major_slices(3) [OF wf sh m(1) bB] by (simp add: nth_butlast)
  qed
  have "tf_transpose ((tf_transpose t)\<lparr>shape := (T, B, N), vals := ?i0 # butlast ?xs\<rparr>)
      = \<lparr>dtype = dtype t, shape = (B, T, N),
          vals = map (\<lambda>b. map (\<lambda>k. (?i0 # butlast ?xs) ! k ! b) [0..<T]) [0..<B]\<rparr>"
    by (simp add: tf_transpose_def split: prod.splits)
  also have "\<dots> = \<lparr>dtype = dtype t, shape = (B, T, N),
          vals = map (\<lambda>b. map (\<lambda>k. if k = 0 then ?i0 ! b else vals t ! b ! (k - 1)) [0..<T]) [0..<B]\<rparr>"
    using ent by simp
  finally show ?thesis
    unfolding run by simp
qed

text \<open>
  C7. On a well-formed tensor of floats of shape \<open>(B, T, N)\<close> with at least one time
  step, and an initializer that is absent or of the shape \<open>(B, N)\<close> of one time slice,
  the shift returns a tensor of the same shape whose slice 0 is the initializer (zeros
  when absent) and whose slice \<open>k\<close> is slice \<open>k - 1\<close> of the input for \<open>0 < k < T\<close>; the
  last slice of the input does not reach the output: any input that agrees on the
  slices before the last gives the same result.
\<close>

theorem shift_by_one_time_step_shifts:
  assumes wf: "wf_tensor3 t" and sh: "shape t = (B, T, N)" and fl: "float_dtype t" and T: "0 < T"
    and io: "initializer_ok init B N"
  shows "\<exists>r. shift_by_one_time_step t init = Inr r
     \<and> shape r = shape t \<and> dtype r = dtype t \<and> wf_tensor3 r
     \<and> (\<forall>b<B. vals r ! b ! 0 = (case init of None \<Rightarrow> replicate N 0 | Some i \<Rightarrow> i ! b)
           \<and> (\<forall>k. 0 < k \<and> k < T \<longrightarrow> vals r ! b ! k = vals t ! b ! (k - 1)))
     \<and> (\<forall>t'. wf_tensor3 t' \<and> shape t' = shape t \<and> dtype t' = dtype t
              \<and> (\<forall>b<B. \<forall>k. Suc k < T \<longrightarrow> vals t' ! b ! k = vals t ! b ! k)
           \<longrightarrow> shift_by_one_time_step t' init = Inr r)"
proof -
  let ?i0 = "shift_initializer init B N"
  define r where "r = \<lparr>dtype = dtype t, shape = (B, T, N),
          vals = map (\<lambda>b. map (\<lambda>k. if k = 0 then ?i0 ! b else vals t ! b ! (k - 1)) [0..<T]) [0..<B]\<rparr>"
  have res: "shift_by_one_time_step t init = Inr r"
    unfolding r_def using wf sh fl T by (rule shift_explicit)
  have rsh: "shape r = shape t"
    by (simp add: r_def sh)
  have rdt: "dtype r = dtype t"
    by (simp add: r_def)
  have i0: "mat_shape ?i0 B N"
    using io by (rule shift_initializer_shape)
  have rwf: "wf_tensor3 r"
    unfolding wf_tensor3_def r_def
    using mat_shape_row [OF i0] wf_tensor3_row [OF wf sh]
    by (auto simp: mat_shape_def)
  have z: "?i0 ! b = (case init of None \<Rightarrow> replicate N 0 | Some i \<Rightarrow> i ! b)" if "b < B" for b
    using that by (cases init) (simp_all add: shift_initializer_def tf_zeros_def)
  have ent: "\<forall>b<B. vals r ! b ! 0 = (case init of None \<Rightarrow> replicate N 0 | Some i \<Rightarrow> i ! b)
           \<and> (\<forall>k. 0 < k \<and> k < T \<longrightarrow> vals r ! b ! k = vals t ! b ! (k - 1))"
    using T z by (simp add: r_def)
  have indep: "shift_by_one_time_step t' init = Inr r"
    if wf': "wf_tensor3 t'" and sh': "shape t' = shape t" and dt': "dtype t' = dtype t"
      and same: "\<forall>b<B. \<forall>k. Suc k < T \<longrightarrow> vals t' ! b ! k = vals t ! b ! k" for t'
  proof -
    have fl': "float_dtype t'"
      using fl dt' by (simp add: float_dtype_def)
    have "shift_by_one_time_step t' init =
       Inr \<lparr>dtype = dtype t', shape = (B, T, N),
          vals = map (\<lambda>b. map (\<lambda>k. if k = 0 then ?i0 ! b else vals t' ! b ! (k - 1)) [0..<T]) [0..<B]\<rparr>"
      using wf' sh' [unfolded sh] fl' T by (rule shift_explicit)
    also have "\<dots> = Inr r"
      unfolding r_def using same dt' by auto
    finally show ?thesis .
  qed
  have ind: "\<forall>t'. wf_tensor3 t' \<and> shape t' = shape t \<and> dtype t' = dtype t
              \<and> (\<forall>b<B. \<forall>k. Suc k < T \<longrightarrow> vals t' ! b ! k = vals t ! b ! k)
           \<longrightarrow> shift_by_one_time_step t' init = Inr r"
    using indep by simp
  show ?thesis
    by (intro exI [of _ r] conjI res rsh rdt rwf ent ind)
qed

theorem shift_by_one_time_step_shifts_witness:
  "wf_tensor3 \<lparr>dtype = Float32, shape = (1, 3, 2), vals = [[[1, 2], [3, 4], [5, 6]]]\<rparr>
   \<and> float_dtype \<lparr>dtype = Float32, shape = (1, 3, 2), vals = [[[1, 2], [3, 4], [5, 6]]]\<rparr>
   \<and> initializer_ok (Some [[9, 8]]) 1 2
   \<and> shift_by_one_time_step \<lparr>dtype = Float32, shape = (1, 3, 2), vals = [[[1, 2], [3, 4], [5, 6]]]\<rparr>
         (Some [[9, 8]])
       = Inr \<lparr>dtype = Float32, shape = (1, 3, 2), vals = [[[9, 8], [1, 2], [3, 4]]]\<rparr>
   \<and> shift_by_one_time_step \<lparr>dtype = Float32, shape = (1, 3, 2), vals = [[[1, 2], [3, 4], [7, 7]]]\<rparr>
         (Some [[9, 8]])
       = Inr \<lparr>dtype = Float32, shape = (1, 3, 2), vals = [[[9, 8], [1, 2], [3, 4]]]\<rparr>
   \<and> shift_by_one_time_step \<lparr>dtype = Float32, shape = (1, 3, 2), vals = [[[1, 2], [3, 4], [5, 6]]]\<rparr> None
       = Inr \<lparr>dtype = Float32, shape = (1, 3, 2), vals = [[[0, 0], [1, 2], [3, 4]]]\<rparr>"
proof -
  let ?t = "\<lparr>dtype = Float32, shape = (1, 3, 2), vals = [[[1, 2], [3, 4], [5, 6 :: real]]]\<rparr>"
  let ?t' = "\<lparr>dtype = Float32, shape = (1, 3, 2), vals = [[[1, 2], [3, 4], [7, 7 :: real]]]\<rparr>"
  have wf: "wf_tensor3 ?t" and wf': "wf_tensor3 ?t'"
    by (simp_all add: wf_tensor3_def mat_shape_def)
  have sh: "shape ?t = (1, 3, 2)"
    by simp
  have fl: "float_dtype ?t"
    by (simp add: float_dtype_def)
  have T: "(0 :: nat) < 3"
    by simp
  have io: "initializer_ok (Some [[9, 8]]) 1 2"
    by (simp add: initializer_ok_def mat_shape_def)
  have ev: "shift_by_one_time_step ?t (Some [[9, 8]])
      = Inr \<lparr>dtype = Float32, shape = (1, 3, 2), vals = [[[9, 8], [1, 2], [3, 4]]]\<rparr>"
    by (simp add: shift_by_one_time_step_def tf_transpose_def Let_def eval_nat_numeral)
  have ev0: "shift_by_one_time_step ?t None
      = Inr \<lparr>dtype = Float32, shape = (1, 3, 2), vals = [[[0, 0], [1, 2], [3, 4]]]\<rparr>"
    by (simp add: shift_by_one_time_step_def tf_transpose_def tf_zeros_like_def Let_def eval_nat_numeral)
  from shift_by_one_time_step_shifts [OF wf sh fl T io]
  obtain r where all: "shift_by_one_time_step ?t (Some [[9, 8]]) = Inr r
     \<and> shape r = shape ?t \<and> dtype r = dtype ?t \<and> wf_tensor3 r
     \<and> (\<forall>b<1. vals r ! b ! 0 = (case Some [[9, 8]] of None \<Rightarrow> replicate 2 0 | Some i \<Rightarrow> i ! b)
           \<and> (\<forall>k. 0 < k \<and> k < 3 \<longrightarrow> vals r ! b ! k = vals ?t ! b ! (k - 1)))
     \<and> (\<forall>t'. wf_tensor3 t' \<and> shape t' = shape ?t \<and> dtype t' = dtype ?t
              \<and> (\<forall>b<1. \<forall>k. Suc k < 3 \<longrightarrow> vals t' ! b ! k = vals ?t ! b ! k)
           \<longrightarrow> shift_by_one_time_step t' (Some [[9, 8]]) = Inr r)" ..
  have req: "Inr r = shift_by_one_time_step ?t (Some [[9, 8]])"
    using all [THEN conjunct1] by simp
  have pre: "wf_tensor3 ?t' \<and> shape ?t' = shape ?t \<and> dtype ?t' = dtype ?t
              \<and> (\<forall>b<1. \<forall>k. Suc k < 3 \<longrightarrow> vals ?t' ! b ! k = vals ?t ! b ! k)"
    using wf' by (simp add: less_Suc_eq numeral_3_eq_3)
  have ev': "shift_by_one_time_step ?t' (Some [[9, 8]])
      = Inr \<lparr>dtype = Float32, shape = (1, 3, 2), vals = [[[9, 8], [1, 2], [3, 4]]]\<rparr>"
    using all [THEN conjunct2, THEN conjunct2, THEN conjunct2, THEN conjunct2, THEN conjunct2,
        THEN spec, of ?t', THEN mp, OF pre]
    unfolding req ev .
  show ?thesis
    by (intro conjI wf fl io ev ev' ev0)
qed

text \<open>
  A tensor with no time step is outside the two theorems above. The exponential filter
  and the shift without an initializer stop at \<^verbatim>\<open>tensor_time_major[0]\<close>; the shift with
  an initializer returns the initializer alone, a sequence of one step.
\<close>

lemma exp_convolve_no_time_step:
  "float_dtype t \<Longrightarrow> shape t = (B, 0, N) \<Longrightarrow> exp_convolve t d = Inl ValueError"
  by (simp add: exp_convolve_def float_dtype_def tf_transpose_def Let_def)

lemma shift_no_time_step:
  assumes "float_dtype t" and "shape t = (B, 0, N)"
  shows "shift_by_one_time_step t None = Inl ValueError"
    and "shift_by_one_time_step t (Some i)
      = Inr \<lparr>dtype = dtype t, shape = (B, 1, N), vals = map (\<lambda>b. [i ! b]) [0..<B]\<rparr>"
  using assms
  by (simp_all add: shift_by_one_time_step_def float_dtype_def tf_transpose_def Let_def)

end
